theory Spec2Isabelle
  imports Complex_Main
begin

section \<open>Fermi SED fit driver: \<open>src/SED/run_SED_fit.py\<close>\<close>

text \<open>
  The script is sequential glue around an external likelihood engine. The embedding
  keeps the source's function names. Python floats are modelled as \<^typ>\<open>real\<close>
  (exact arithmetic, no rounding, no NaN or infinity), Python strings as \<^typ>\<open>string\<close>.
  Output on stdout (\<open>print\<close>) is not modelled.
\<close>

subsection \<open>Exceptions\<close>

text \<open>
  \<open>NoSpacecraftFile\<close> is the only exception the script raises with a \<open>raise\<close>
  statement of its own (line 23). Every other constructor stands for an exception raised
  inside a library call or a built-in operation and propagated unhandled.
\<close>

datatype error =
    NoSpacecraftFile
  | OSError
  | FitsError
  | ValueError_empty_reduction
  | ValueError_format_code
  | IndexError
  | UnboundLocalError
  | KeyError
  | TypeError
  | AttributeError

subsection \<open>String helpers of the Python runtime\<close>

fun startswith :: "string \<Rightarrow> string \<Rightarrow> bool" where
  "startswith s [] = True"
| "startswith [] (p # ps) = False"
| "startswith (c # cs) (p # ps) = (c = p \<and> startswith cs ps)"

text \<open>\<open>sub in s\<close> on strings: \<open>sub\<close> occurs as a contiguous piece of \<open>s\<close>.\<close>

fun str_in :: "string \<Rightarrow> string \<Rightarrow> bool" where
  "str_in sub [] = (sub = [])"
| "str_in sub (c # cs) = (startswith (c # cs) sub \<or> str_in sub cs)"

text \<open>\<open>s.replace('_', ' ')\<close>.\<close>

definition replace_underscore :: "string \<Rightarrow> string" where
  "replace_underscore s = map (\<lambda>c. if c = CHR ''_'' then CHR '' '' else c) s"

text \<open>\<open>s.split('/')[-1]\<close>: what follows the last slash, the whole string when there is none.\<close>

definition split_last :: "string \<Rightarrow> string" where
  "split_last s = rev (takeWhile (\<lambda>c. c \<noteq> CHR ''/'') (rev s))"

text \<open>\<open>os.path.join(a, b)\<close> of \<open>posixpath\<close>, for two components.\<close>

definition os_path_join :: "string \<Rightarrow> string \<Rightarrow> string" where
  "os_path_join a b =
     (if startswith b ''/'' then b
      else if a = [] \<or> last a = CHR ''/'' then a @ b
      else a @ ''/'' @ b)"

text \<open>\<open>"\n".join(xs)\<close>.\<close>

fun join_lines :: "string list \<Rightarrow> string" where
  "join_lines [] = []"
| "join_lines [x] = x"
| "join_lines (x # y # ys) = x @ [CHR 0x0A] @ join_lines (y # ys)"

subsection \<open>Time conversion (lines 39 to 49)\<close>

definition MJDREF :: real where
  "MJDREF = 51910 + 7428703703703703 / 10 ^ 19"

definition MJD_to_MET :: "real \<Rightarrow> real" where
  "MJD_to_MET mjd_time = (mjd_time - MJDREF) * 86400"

definition MET_to_MJD :: "real \<Rightarrow> real" where
  "MET_to_MJD met_time = met_time / 86400 + MJDREF"

subsection \<open>Energy bin edges of the SED (lines 155 and 156)\<close>

text \<open>
  \<open>np.arange(start, stop, step)\<close> has \<open>ceil((stop - start) / step)\<close> elements
  \<open>start + i * step\<close>; the interval is half open, \<open>stop\<close> is never an element.
  \<open>np.log10\<close> is the real logarithm; the model is meant for positive energies.
\<close>

definition np_arange :: "real \<Rightarrow> real \<Rightarrow> real \<Rightarrow> real list" where
  "np_arange start stop step =
     map (\<lambda>i. start + real i * step) [0 ..< nat \<lceil>(stop - start) / step\<rceil>]"

definition loge_bins :: "real \<Rightarrow> real \<Rightarrow> real list" where
  "loge_bins emin emax = np_arange (log 10 emin) (log 10 emax) (1 / 2)"

subsection \<open>Built-in conversions and \<open>str.format\<close>\<close>

fun show_nat :: "nat \<Rightarrow> string" where
  "show_nat n =
     (if n < 10 then [''0123456789'' ! n]
      else show_nat (n div 10) @ [''0123456789'' ! (n mod 10)])"

declare show_nat.simps [simp del]

definition str_int :: "int \<Rightarrow> string" where
  "str_int n = (if n < 0 then ''-'' @ show_nat (nat (- n)) else show_nat (nat n))"

text \<open>\<open>int(x)\<close> truncates towards zero.\<close>

definition py_int :: "real \<Rightarrow> int" where
  "py_int x = (if 0 \<le> x then \<lfloor>x\<rfloor> else \<lceil>x\<rceil>)"

text \<open>Rounding to an integer, ties to even, as the \<open>.0f\<close> presentation does.\<close>

definition round_half_even :: "real \<Rightarrow> int" where
  "round_half_even x =
     (let f = \<lfloor>x\<rfloor>; r = x - of_int f
      in if r < 1 / 2 then f else if 1 / 2 < r then f + 1 else if even f then f else f + 1)"

definition format_f0 :: "real \<Rightarrow> string" where
  "format_f0 x =
     (if x < 0 then ''-'' @ show_nat (nat (round_half_even (- x)))
      else show_nat (nat (round_half_even x)))"

text \<open>
  The arguments of a \<open>format\<close> call, the two replacement fields the script uses
  (\<open>{:.0f}\<close> and \<open>{}\<close>) and a format string as a list of literal pieces and fields.
\<close>

datatype pyarg = AStr string | AFloat real | AInt int

datatype field_spec = Fixed0 | Plain

datatype piece = Lit string | Field field_spec

text \<open>
  Formatting one value. The presentation type \<open>f\<close> is defined for numbers only: for a
  string Python raises \<open>ValueError: Unknown format code 'f' for object of type 'str'\<close>.
  The shortest-repr printing of a float by \<open>{}\<close> is a parameter, \<open>float_repr\<close>.
\<close>

fun format_value :: "(real \<Rightarrow> string) \<Rightarrow> field_spec \<Rightarrow> pyarg \<Rightarrow> error + string" where
  "format_value float_repr Fixed0 (AStr s) = Inl ValueError_format_code"
| "format_value float_repr Fixed0 (AFloat x) = Inr (format_f0 x)"
| "format_value float_repr Fixed0 (AInt n) = Inr (format_f0 (of_int n))"
| "format_value float_repr Plain (AStr s) = Inr s"
| "format_value float_repr Plain (AFloat x) = Inr (float_repr x)"
| "format_value float_repr Plain (AInt n) = Inr (str_int n)"

text \<open>
  \<open>fmt.format(*args)\<close> with automatically numbered fields: fields take the arguments
  from left to right, the first failing field raises, surplus arguments are ignored.
\<close>

fun py_format :: "(real \<Rightarrow> string) \<Rightarrow> piece list \<Rightarrow> pyarg list \<Rightarrow> error + string" where
  "py_format float_repr [] as = Inr []"
| "py_format float_repr (Lit s # ps) as =
     (case py_format float_repr ps as of Inl e \<Rightarrow> Inl e | Inr r \<Rightarrow> Inr (s @ r))"
| "py_format float_repr (Field sp # ps) [] = Inl IndexError"
| "py_format float_repr (Field sp # ps) (a # as) =
     (case format_value float_repr sp a of
        Inl e \<Rightarrow> Inl e
      | Inr v \<Rightarrow>
          (case py_format float_repr ps as of Inl e \<Rightarrow> Inl e | Inr r \<Rightarrow> Inr (v @ r)))"

subsection \<open>The data directory\<close>

text \<open>
  A file is what the script can observe of it: the header of HDU 1 of a FITS file (keyword
  to value), the text of a text file, or nothing. A directory is the list of its entries
  in the order \<open>os.listdir\<close> returns them; the file system maps the path of a directory to
  its entries.
\<close>

datatype content = Fits "string \<Rightarrow> real option" | Text string | Opaque

type_synonym directory = "(string \<times> content) list"

type_synonym filesystem = "string \<Rightarrow> directory option"

text \<open>\<open>os.rename(old, new)\<close> inside one directory; an existing \<open>new\<close> is replaced.\<close>

definition os_rename :: "string \<Rightarrow> string \<Rightarrow> directory \<Rightarrow> directory" where
  "os_rename old new entries =
     map (\<lambda>(n, c). if n = old then (new, c) else (n, c))
       (filter (\<lambda>(n, c). n \<noteq> new) entries)"

text \<open>
  Lines 11 to 24. The listing is taken once, before \<open>events.txt\<close> is written; the
  exception of line 23 is raised after that write.
\<close>

definition setup_data_files :: "string \<Rightarrow> filesystem \<Rightarrow> (error + unit) \<times> filesystem" where
  "setup_data_files folder fsys =
     (case fsys folder of
        None \<Rightarrow> (Inl OSError, fsys)
      | Some entries \<Rightarrow>
          (let files = map fst entries;
               entries1 =
                 (if ''events.txt'' \<notin> set files
                  then (let ph_files = map (os_path_join folder) (filter (str_in ''PH'') files)
                        in entries @ [(''events.txt'', Text (join_lines ph_files))])
                  else entries)
           in if ''spacecraft.fits'' \<notin> set files
              then (let sc_files = filter (str_in ''SC'') files
                    in if length sc_files = 1
                       then (Inr (),
                             fsys(folder \<mapsto> os_rename (sc_files ! 0) ''spacecraft.fits'' entries1))
                       else (Inl NoSpacecraftFile, fsys(folder \<mapsto> entries1)))
              else (Inr (), fsys(folder \<mapsto> entries1))))"

text \<open>
  Lines 32 to 35: the loop over the event files. Opening a file that is not a FITS file
  fails; a missing header keyword is a \<open>KeyError\<close>.
\<close>

fun read_headers :: "directory \<Rightarrow> error + (real list \<times> real list)" where
  "read_headers [] = Inr ([], [])"
| "read_headers ((f, c) # rest) =
     (case c of
        Fits header \<Rightarrow>
          (case header ''TSTART'' of
             None \<Rightarrow> Inl KeyError
           | Some t0 \<Rightarrow>
               (case header ''TSTOP'' of
                  None \<Rightarrow> Inl KeyError
                | Some t1 \<Rightarrow>
                    (case read_headers rest of
                       Inl e \<Rightarrow> Inl e
                     | Inr (tmin, tmax) \<Rightarrow> Inr (t0 # tmin, t1 # tmax))))
      | _ \<Rightarrow> Inl FitsError)"

text \<open>\<open>np.min\<close> and \<open>np.max\<close> of a list: an empty list raises \<open>ValueError\<close>.\<close>

fun np_min :: "real list \<Rightarrow> error + real" where
  "np_min [] = Inl ValueError_empty_reduction"
| "np_min (x # xs) = Inr (fold min xs x)"

fun np_max :: "real list \<Rightarrow> error + real" where
  "np_max [] = Inl ValueError_empty_reduction"
| "np_max (x # xs) = Inr (fold max xs x)"

text \<open>Lines 27 to 36.\<close>

definition get_time_window :: "filesystem \<Rightarrow> string \<Rightarrow> error + (real \<times> real)" where
  "get_time_window fsys folder =
     (case fsys folder of
        None \<Rightarrow> Inl OSError
      | Some entries \<Rightarrow>
          (case read_headers (filter (\<lambda>(f, c). str_in ''PH'' f) entries) of
             Inl e \<Rightarrow> Inl e
           | Inr (tmin, tmax) \<Rightarrow>
               (case np_min tmin of
                  Inl e \<Rightarrow> Inl e
                | Inr lo \<Rightarrow>
                    (case np_max tmax of
                       Inl e \<Rightarrow> Inl e
                     | Inr hi \<Rightarrow> Inr (lo, hi)))))"

subsection \<open>The configuration document\<close>

text \<open>
  A parsed YAML document. A mapping is a finite map from its keys (strings) to values, as
  a Python \<open>dict\<close> is.
\<close>

datatype yval =
    YNull
  | YBool bool
  | YNum real
  | YStr string
  | YList "yval list"
  | YDict "string \<Rightarrow> yval option"

definition bind_e :: "error + 'a \<Rightarrow> ('a \<Rightarrow> error + 'b) \<Rightarrow> error + 'b" where
  "bind_e m f = (case m of Inl e \<Rightarrow> Inl e | Inr x \<Rightarrow> f x)"

text \<open>\<open>d[k]\<close> and \<open>d[k] = v\<close> with a string key: only a mapping supports them.\<close>

definition getitem :: "yval \<Rightarrow> string \<Rightarrow> error + yval" where
  "getitem d k =
     (case d of
        YDict m \<Rightarrow> (case m k of None \<Rightarrow> Inl KeyError | Some v \<Rightarrow> Inr v)
      | _ \<Rightarrow> Inl TypeError)"

definition setitem :: "yval \<Rightarrow> string \<Rightarrow> yval \<Rightarrow> error + yval" where
  "setitem d k v = (case d of YDict m \<Rightarrow> Inr (YDict (m(k \<mapsto> v))) | _ \<Rightarrow> Inl TypeError)"

text \<open>\<open>config[k1][k2]\<close> and \<open>config[k1][k2] = v\<close>; the inner mapping is updated in place.\<close>

definition getitem2 :: "yval \<Rightarrow> string \<Rightarrow> string \<Rightarrow> error + yval" where
  "getitem2 config k1 k2 = bind_e (getitem config k1) (\<lambda>d. getitem d k2)"

definition setitem2 :: "yval \<Rightarrow> string \<Rightarrow> string \<Rightarrow> yval \<Rightarrow> error + yval" where
  "setitem2 config k1 k2 v =
     bind_e (getitem config k1) (\<lambda>d. bind_e (setitem d k2 v) (\<lambda>d'. setitem config k1 d'))"

text \<open>\<open>config[k1][k2].append(v)\<close>.\<close>

definition append2 :: "yval \<Rightarrow> string \<Rightarrow> string \<Rightarrow> yval \<Rightarrow> error + yval" where
  "append2 config k1 k2 v =
     bind_e (getitem2 config k1 k2)
       (\<lambda>l. case l of YList xs \<Rightarrow> setitem2 config k1 k2 (YList (xs @ [v]))
                    | _ \<Rightarrow> Inl AttributeError)"

text \<open>\<open>v.split('/')[-1]\<close>: only a string has \<open>split\<close>.\<close>

definition basename_of :: "yval \<Rightarrow> error + string" where
  "basename_of v = (case v of YStr s \<Rightarrow> Inr (split_last s) | _ \<Rightarrow> Inl AttributeError)"

text \<open>
  Lines 83 to 101 of \<open>run_fit\<close>. The template is the parsed \<open>default.yaml\<close>; \<open>None\<close>
  stands for a file that does not parse: the handler of line 86 prints the error and
  leaves \<open>config\<close> unbound, so line 88 raises.
\<close>

definition build_config ::
  "(real \<Rightarrow> string) \<Rightarrow> yval option \<Rightarrow> real \<Rightarrow> real \<Rightarrow> real \<Rightarrow> real \<Rightarrow> string \<Rightarrow> string
     \<Rightarrow> string option \<Rightarrow> bool \<Rightarrow> error + yval" where
  "build_config float_repr template emin emax tmin tmax src data_path xml_path use_3FGL =
     (case template of
        None \<Rightarrow> Inl UnboundLocalError
      | Some c0 \<Rightarrow>
          bind_e (setitem2 c0 ''selection'' ''emin'' (YNum emin)) (\<lambda>c1.
          bind_e (setitem2 c1 ''selection'' ''emax'' (YNum emax)) (\<lambda>c2.
          bind_e (setitem2 c2 ''selection'' ''tmin'' (YNum tmin)) (\<lambda>c3.
          bind_e (setitem2 c3 ''selection'' ''tmax'' (YNum tmax)) (\<lambda>c4.
          bind_e (setitem2 c4 ''selection'' ''target'' (YStr src)) (\<lambda>c5.
          bind_e (getitem2 c5 ''data'' ''evfile'') (\<lambda>ev.
          bind_e (basename_of ev) (\<lambda>ev_base.
          bind_e (setitem2 c5 ''data'' ''evfile'' (YStr (os_path_join data_path ev_base))) (\<lambda>c6.
          bind_e (getitem2 c6 ''data'' ''scfile'') (\<lambda>sc.
          bind_e (basename_of sc) (\<lambda>sc_base.
          bind_e (setitem2 c6 ''data'' ''scfile'' (YStr (os_path_join data_path sc_base))) (\<lambda>c7.
          bind_e (setitem2 c7 ''model'' ''catalogs'' (YList [])) (\<lambda>c8.
          bind_e (case xml_path of
                    None \<Rightarrow> Inr c8
                  | Some p \<Rightarrow>
                      bind_e (py_format float_repr [Field Plain] [AStr p])
                        (\<lambda>x. append2 c8 ''model'' ''catalogs'' (YStr x))) (\<lambda>c9.
          if use_3FGL then append2 c9 ''model'' ''catalogs'' (YStr ''3FGL'')
          else Inr c9))))))))))))))"

subsection \<open>The engine and the run\<close>

text \<open>
  A keyword argument of an engine call is either left out or given. The engine is opaque:
  a call is recorded with the arguments the script passes, in the order of the calls, and
  is taken to return. \<open>WriteYaml\<close> is the \<open>yaml.dump\<close> of line 103, \<open>NpSave\<close> the
  \<open>np.save\<close> of line 145 (of the value the \<open>bowtie\<close> call returned).
\<close>

datatype 'a kw = Omitted | Given 'a

datatype action =
    WriteYaml string yval
  | GTAnalysis string int
  | Setup
  | FreeSources real "int option list" "string list"
  | FreeSource string "string option kw" "bool kw"
  | SetParameter string string real
  | Optimize
  | Fit int
  | WriteRoi string
  | Bowtie string
  | NpSave string
  | Sed string string "real list" "string option" "real option"

text \<open>
  The run arguments, as \<open>parseArguments\<close> delivers them: an absent option is \<open>None\<close>,
  the time range is a pair of MJD values.
\<close>

record run_args =
  target_src :: string
  emin :: real
  emax :: real
  time_range :: "(real \<times> real) option"
  data_path :: string
  outfolder :: "string option"
  xml_path :: "string option"
  use_3FGL :: bool
  free_radius :: "real option"
  free_sources :: "string list option"
  src_gamma :: "real option"
  free_norm :: bool
  free_diff :: bool
  retries :: int
  no_sed :: bool

text \<open>
  What the run reads besides its arguments: the directory of the script, the parsed
  template \<open>default.yaml\<close> beside it, and the float printing of the runtime.
\<close>

record env =
  this_path :: string
  default_yaml :: "yval option"
  float_repr :: "real \<Rightarrow> string"

record world =
  fsys :: filesystem
  trace :: "action list"

type_synonym 'a prog = "world \<Rightarrow> (error + 'a) \<times> world"

definition pbind :: "'a prog \<Rightarrow> ('a \<Rightarrow> 'b prog) \<Rightarrow> 'b prog" where
  "pbind m f w = (case m w of (Inl e, w') \<Rightarrow> (Inl e, w') | (Inr x, w') \<Rightarrow> f x w')"

definition lift :: "error + 'a \<Rightarrow> 'a prog" where
  "lift r w = (r, w)"

definition calls :: "action list \<Rightarrow> unit prog" where
  "calls as w = (Inr (), w\<lparr>trace := trace w @ as\<rparr>)"

text \<open>Lines 59 to 65.\<close>

definition time_window :: "run_args \<Rightarrow> filesystem \<Rightarrow> error + (real \<times> real)" where
  "time_window args fs =
     (case time_range args of
        Some (t0, t1) \<Rightarrow> Inr (MJD_to_MET t0, MJD_to_MET t1)
      | None \<Rightarrow> get_time_window fs (data_path args))"

text \<open>Lines 67 to 75.\<close>

definition output_folder :: "env \<Rightarrow> run_args \<Rightarrow> real \<Rightarrow> real \<Rightarrow> error + string" where
  "output_folder env args tmin tmax =
     (case outfolder args of
        Some p \<Rightarrow> Inr p
      | None \<Rightarrow>
          bind_e (py_format (float_repr env)
                    [Field Fixed0, Lit ''_'', Field Fixed0, Lit ''/'',
                     Field Plain, Lit ''_'', Field Plain, Lit ''/'']
                    [AStr (target_src args), AFloat (MET_to_MJD tmin), AFloat (MET_to_MJD tmax),
                     AInt (py_int (emin args)), AInt (py_int (emax args))])
            (\<lambda>basepath. Inr (os_path_join (this_path env) basepath)))"

text \<open>Lines 77 and 78.\<close>

definition makedirs :: "string \<Rightarrow> unit prog" where
  "makedirs basepath w =
     (Inr (), if fsys w basepath = None then w\<lparr>fsys := (fsys w)(basepath \<mapsto> [])\<rparr> else w)"

text \<open>Lines 111 to 119.\<close>

definition free_calls :: "run_args \<Rightarrow> action list" where
  "free_calls args =
     (case free_radius args of
        Some r \<Rightarrow> [FreeSources r [Some 2, None] [''isodiff'', ''galdiff'']]
      | None \<Rightarrow>
          (case free_sources args of
             Some keys \<Rightarrow> map (\<lambda>src_key. FreeSource src_key Omitted Omitted) keys
           | None \<Rightarrow> []))"

text \<open>Lines 122 to 130: the calls made and the value of \<open>free_pars\<close>.\<close>

definition configure_target :: "string \<Rightarrow> run_args \<Rightarrow> action list \<times> string option" where
  "configure_target src args =
     (case src_gamma args of
        Some g \<Rightarrow> ([SetParameter src ''Index'' g], Some ''norm'')
      | None \<Rightarrow> if free_norm args then ([], Some ''norm'') else ([Optimize], None))"

text \<open>Lines 136 to 139.\<close>

definition diffuse_calls :: "run_args \<Rightarrow> action list" where
  "diffuse_calls args =
     (if free_diff args
      then [FreeSource ''galdiff'' (Given (Some ''norm'')) Omitted,
            FreeSource ''isodiff'' (Given (Some ''norm'')) Omitted]
      else [])"

text \<open>\<open>prefix + '_emin_{}_emax_{}' + suffix\<close> formatted with \<open>int(emin), int(emax)\<close>.\<close>

definition artifact_name :: "env \<Rightarrow> string \<Rightarrow> string \<Rightarrow> run_args \<Rightarrow> error + string" where
  "artifact_name env prefix suffix args =
     py_format (float_repr env)
       [Lit (prefix @ ''_emin_''), Field Plain, Lit ''_emax_'', Field Plain, Lit suffix]
       [AInt (py_int (emin args)), AInt (py_int (emax args))]"

text \<open>Lines 52 to 158.\<close>

definition run_fit :: "env \<Rightarrow> run_args \<Rightarrow> unit prog" where
  "run_fit env args =
     (let src = replace_underscore (target_src args) in
      pbind (\<lambda>w. (time_window args (fsys w), w)) (\<lambda>(tmin, tmax).
      pbind (lift (output_folder env args tmin tmax)) (\<lambda>basepath.
      pbind (\<lambda>w. case setup_data_files (data_path args) (fsys w) of
                    (r, fs') \<Rightarrow> (r, w\<lparr>fsys := fs'\<rparr>)) (\<lambda>_.
      pbind (makedirs basepath) (\<lambda>_.
      let config_path = os_path_join basepath ''config.yaml'' in
      pbind (lift (build_config (float_repr env) (default_yaml env) (emin args) (emax args)
                     tmin tmax src (data_path args) (xml_path args) (use_3FGL args))) (\<lambda>config.
      pbind (calls [WriteYaml config_path config,
                    GTAnalysis (os_path_join basepath ''config.yaml'') 3,
                    Setup]) (\<lambda>_.
      pbind (calls (free_calls args)) (\<lambda>_.
      case configure_target src args of (target_calls, free_pars) \<Rightarrow>
      pbind (calls target_calls) (\<lambda>_.
      pbind (calls [FreeSource src (Given None) (Given False),
                    FreeSource src (Given free_pars) (Given True)]) (\<lambda>_.
      pbind (calls (diffuse_calls args)) (\<lambda>_.
      pbind (calls [Fit (retries args)]) (\<lambda>_.
      pbind (lift (artifact_name env ''llh'' ''.npy'' args)) (\<lambda>roi.
      pbind (calls [WriteRoi roi, Bowtie src]) (\<lambda>_.
      pbind (lift (artifact_name env ''bowtie'' ''.npy'' args)) (\<lambda>bowtie.
      pbind (calls [NpSave (os_path_join basepath bowtie)]) (\<lambda>_.
      if \<not> no_sed args
      then pbind (lift (artifact_name env ''sed'' ''.fits'' args)) (\<lambda>ofile.
             calls [Sed src ofile (loge_bins (emin args) (emax args)) free_pars
                      (free_radius args)])
      else lift (Inr ())))))))))))))))))"

text \<open>
  The calls of lines 102 to 158 in order, for a run that gets that far: the artifact names
  are written out (formatting two integers with \<open>{}\<close> cannot fail). Lemma
  \<open>run_fit_eq\<close> below shows that this is the trace \<open>run_fit\<close> adds.
\<close>

definition engine_calls :: "run_args \<Rightarrow> string \<Rightarrow> yval \<Rightarrow> action list" where
  "engine_calls args basepath config =
     (let src = replace_underscore (target_src args);
          e0 = str_int (py_int (emin args));
          e1 = str_int (py_int (emax args))
      in [WriteYaml (os_path_join basepath ''config.yaml'') config,
          GTAnalysis (os_path_join basepath ''config.yaml'') 3,
          Setup]
         @ free_calls args
         @ fst (configure_target src args)
         @ [FreeSource src (Given None) (Given False),
            FreeSource src (Given (snd (configure_target src args))) (Given True)]
         @ diffuse_calls args
         @ [Fit (retries args),
            WriteRoi (''llh_emin_'' @ e0 @ ''_emax_'' @ e1 @ ''.npy''),
            Bowtie src,
            NpSave (os_path_join basepath (''bowtie_emin_'' @ e0 @ ''_emax_'' @ e1 @ ''.npy''))]
         @ (if no_sed args then []
            else [Sed src (''sed_emin_'' @ e0 @ ''_emax_'' @ e1 @ ''.fits'')
                    (loge_bins (emin args) (emax args))
                    (snd (configure_target src args)) (free_radius args)]))"

subsection \<open>What the flagged calls do to the target's parameters\<close>

text \<open>
  The engine is not part of the repository, and the trace records calls, not their effect.
  To speak of parameters being freed, the two kinds of \<open>free_source\<close> call that give both
  \<open>pars\<close> and \<open>free\<close> are read the way the call of line 132 has to be read to un-free
  every parameter of the source: \<open>pars=None\<close> addresses all parameters of the source, and
  \<open>pars=p\<close> the parameters the engine groups under the name \<open>p\<close> (the grouping
  \<open>named\<close> is a parameter). With \<open>free=True\<close> the addressed parameters become free,
  with \<open>free=False\<close> fixed. No other call is interpreted.
\<close>

definition selected_pars :: "(string \<Rightarrow> string set) \<Rightarrow> string set \<Rightarrow> string option \<Rightarrow> string set" where
  "selected_pars named params pars =
     (case pars of None \<Rightarrow> params | Some p \<Rightarrow> named p \<inter> params)"

fun flagged_free_source ::
  "(string \<Rightarrow> string set) \<Rightarrow> string \<Rightarrow> string set \<Rightarrow> action \<Rightarrow> string set \<Rightarrow> string set" where
  "flagged_free_source named src params (FreeSource n (Given pars) (Given free)) F =
     (if n = src
      then (if free then F \<union> selected_pars named params pars
            else F - selected_pars named params pars)
      else F)"
| "flagged_free_source named src params a F = F"

subsection \<open>A concrete run\<close>

text \<open>
  The end-to-end scenario: target \<open>Crab_Nebula\<close>, 100 MeV to 100 GeV, MJD 55000 to
  55010, no catalogs, SED requested. The options the scenario leaves open are fixed here:
  an output folder, a free radius together with an explicit source list, the diffuse
  components freed, five retries. The data directory has two event files and one
  spacecraft file; the template is a small one.
\<close>

definition crab_template :: yval where
  "crab_template =
     YDict [''selection'' \<mapsto> YDict [''emin'' \<mapsto> YNum 1000, ''emax'' \<mapsto> YNum 500000,
                                        ''tmin'' \<mapsto> YNum 0, ''tmax'' \<mapsto> YNum 1,
                                        ''target'' \<mapsto> YStr ''mkn421'', ''zmax'' \<mapsto> YNum 90],
            ''data'' \<mapsto> YDict [''evfile'' \<mapsto> YStr ''/old/run/events.txt'',
                                   ''scfile'' \<mapsto> YStr ''/old/run/spacecraft.fits'',
                                   ''ltcube'' \<mapsto> YNull],
            ''model'' \<mapsto> YDict [''catalogs'' \<mapsto> YList [YStr ''2FGL''],
                                    ''galdiff'' \<mapsto> YStr ''gll_iem_v06.fits''],
            ''binning'' \<mapsto> YDict [''roiwidth'' \<mapsto> YNum 10]]"

definition crab_env :: env where
  "crab_env = \<lparr>this_path = ''/opt/SED'', default_yaml = Some crab_template,
               float_repr = format_f0\<rparr>"

definition crab_args :: run_args where
  "crab_args =
     \<lparr>target_src = ''Crab_Nebula'', emin = 100, emax = 100000,
      time_range = Some (55000, 55010), data_path = ''/data/crab'',
      outfolder = Some ''/out/crab'', xml_path = None, use_3FGL = False,
      free_radius = Some 3, free_sources = Some [''PKS_0528+134''],
      src_gamma = None, free_norm = False, free_diff = True, retries = 5, no_sed = False\<rparr>"

definition crab_dir :: directory where
  "crab_dir =
     [(''L18_PH00.fits'', Fits [''TSTART'' \<mapsto> 239557417, ''TSTOP'' \<mapsto> 255000000]),
      (''L18_PH01.fits'', Fits [''TSTART'' \<mapsto> 255000000, ''TSTOP'' \<mapsto> 270000000]),
      (''L18_SC00.fits'', Opaque)]"

text \<open>A power-law source: the normalization group is the prefactor.\<close>

definition crab_named :: "string \<Rightarrow> string set" where
  "crab_named p = (if p = ''norm'' then {''Prefactor''} else {p})"

definition crab_world :: world where
  "crab_world = \<lparr>fsys = [''/data/crab'' \<mapsto> crab_dir], trace = []\<rparr>"

section \<open>Properties\<close>

lemma log10_100: "log 10 (100::real) = 2"
proof -
  have "log 10 ((10::real) ^ 2) = real 2"
    by (rule log_pow_cancel) simp_all
  then show ?thesis by simp
qed

lemma log10_100000: "log 10 (100000::real) = 5"
proof -
  have "log 10 ((10::real) ^ 5) = real 5"
    by (rule log_pow_cancel) simp_all
  then show ?thesis by simp
qed

lemma upt_0_6: "[0 ..< 6] = [0, 1, 2, 3, 4, 5::nat]"
  by (simp add: upt_rec)

subsection \<open>Auxiliary facts\<close>

lemma artifact_name_eq:
  "artifact_name env p s args =
     Inr (p @ ''_emin_'' @ str_int (py_int (emin args)) @ ''_emax_''
            @ str_int (py_int (emax args)) @ s)"
  by (simp add: artifact_name_def)

lemma output_folder_None:
  "outfolder args = None \<Longrightarrow> output_folder env args tmin tmax = Inl ValueError_format_code"
  by (simp add: output_folder_def bind_e_def)

lemma output_folder_Some:
  "outfolder args = Some p \<Longrightarrow> output_folder env args tmin tmax = Inr p"
  by (simp add: output_folder_def)

lemma run_fit_eq:
  "run_fit env args w =
     (case time_window args (fsys w) of
        Inl e \<Rightarrow> (Inl e, w)
      | Inr (tmin, tmax) \<Rightarrow>
          (case output_folder env args tmin tmax of
             Inl e \<Rightarrow> (Inl e, w)
           | Inr basepath \<Rightarrow>
               (case setup_data_files (data_path args) (fsys w) of
                  (Inl e, fs1) \<Rightarrow> (Inl e, w\<lparr>fsys := fs1\<rparr>)
                | (Inr u, fs1) \<Rightarrow>
                    (let fs2 = (if fs1 basepath = None then fs1(basepath \<mapsto> []) else fs1) in
                     case build_config (float_repr env) (default_yaml env) (emin args) (emax args)
                            tmin tmax (replace_underscore (target_src args)) (data_path args)
                            (xml_path args) (use_3FGL args) of
                       Inl e \<Rightarrow> (Inl e, w\<lparr>fsys := fs2\<rparr>)
                     | Inr config \<Rightarrow>
                         (Inr (), w\<lparr>fsys := fs2,
                                    trace := trace w @ engine_calls args basepath config\<rparr>)))))"
  by (simp add: run_fit_def pbind_def lift_def calls_def makedirs_def artifact_name_eq
        engine_calls_def Let_def split: sum.splits prod.splits)

lemma np_min_Min: "xs \<noteq> [] \<Longrightarrow> np_min xs = Inr (Min (set xs))"
proof (cases xs)
  case (Cons a list)
  have "Min (set (a # list)) = fold min list a" by (rule Min.set_eq_fold)
  with Cons show ?thesis by simp
qed simp

lemma np_max_Max: "xs \<noteq> [] \<Longrightarrow> np_max xs = Inr (Max (set xs))"
proof (cases xs)
  case (Cons a list)
  have "Max (set (a # list)) = fold max list a" by (rule Max.set_eq_fold)
  with Cons show ?thesis by simp
qed simp

lemma read_headers_known:
  "list_all2 (\<lambda>(f, c) (t0, t1). \<exists>h. c = Fits h \<and> h ''TSTART'' = Some t0 \<and> h ''TSTOP'' = Some t1)
     es ts \<Longrightarrow> read_headers es = Inr (map fst ts, map snd ts)"
  by (induction es ts rule: list_all2_induct) auto

lemma not_SC_events: "\<not> str_in ''SC'' ''events.txt''"
  by simp

lemma bind_e_Inl:
  assumes "bind_e m f = Inl e"
  obtains "m = Inl e" | x where "m = Inr x" and "f x = Inl e"
  using assms by (cases m) (simp_all add: bind_e_def)

lemma getitem_error: "getitem d k = Inl e \<Longrightarrow> e = KeyError \<or> e = TypeError"
  by (auto simp: getitem_def split: yval.splits option.splits)

lemma setitem_error: "setitem d k v = Inl e \<Longrightarrow> e = TypeError"
  by (auto simp: setitem_def split: yval.splits)

lemma getitem2_error: "getitem2 c k1 k2 = Inl e \<Longrightarrow> e = KeyError \<or> e = TypeError"
  unfolding getitem2_def by (erule bind_e_Inl) (auto dest: getitem_error)

lemma setitem2_error: "setitem2 c k1 k2 v = Inl e \<Longrightarrow> e = KeyError \<or> e = TypeError"
  unfolding setitem2_def
  by (elim bind_e_Inl) (auto dest: getitem_error setitem_error)

lemma append2_error:
  "append2 c k1 k2 v = Inl e \<Longrightarrow> e = KeyError \<or> e = TypeError \<or> e = AttributeError"
  unfolding append2_def
  by (erule bind_e_Inl) (auto dest: getitem2_error setitem2_error split: yval.splits)

lemma basename_of_error: "basename_of v = Inl e \<Longrightarrow> e = AttributeError"
  by (auto simp: basename_of_def split: yval.splits)

lemma build_config_error:
  assumes "build_config r t a b c d s p x u = Inl e"
  shows "e = UnboundLocalError \<or> e = KeyError \<or> e = TypeError \<or> e = AttributeError"
  using assms unfolding build_config_def
  by (auto split: option.splits if_splits elim!: bind_e_Inl
        dest: getitem2_error setitem2_error append2_error basename_of_error)

lemma run_fit_NoSpacecraftFile:
  assumes "fst (run_fit env args w) = Inl NoSpacecraftFile"
  shows "\<exists>es. fsys w (data_path args) = Some es \<and> ''spacecraft.fits'' \<notin> set (map fst es)
              \<and> length (filter (str_in ''SC'') (map fst es)) \<noteq> 1"
proof -
  have rh: "read_headers es \<noteq> Inl NoSpacecraftFile" for es
    by (induction es rule: read_headers.induct) (auto split: content.splits option.splits sum.splits)
  have mn: "np_min xs \<noteq> Inl NoSpacecraftFile" for xs by (cases xs) simp_all
  have mx: "np_max xs \<noteq> Inl NoSpacecraftFile" for xs by (cases xs) simp_all
  have tw: "time_window args fs \<noteq> Inl NoSpacecraftFile" for fs
    using rh mn mx
    by (auto simp: time_window_def get_time_window_def split: option.splits sum.splits prod.splits)
  have ofo: "output_folder env args a b \<noteq> Inl NoSpacecraftFile" for a b
    by (cases "outfolder args") (simp_all add: output_folder_None output_folder_Some)
  have bc: "build_config r t a b c d s p x u \<noteq> Inl NoSpacecraftFile" for r t a b c d s p x u
    using build_config_error [of r t a b c d s p x u NoSpacecraftFile] by auto
  have sd: "fst (setup_data_files (data_path args) (fsys w)) = Inl NoSpacecraftFile" 
    using assms tw ofo bc
    by (auto simp: run_fit_eq Let_def split: sum.splits prod.splits)
  then show ?thesis 
    by (auto simp: setup_data_files_def Let_def split: option.splits if_splits)
qed

lemma bind_e_Inr: "bind_e m f = Inr y \<longleftrightarrow> (\<exists>x. m = Inr x \<and> f x = Inr y)"
  by (cases m) (simp_all add: bind_e_def)

lemma getitem_Inr: "getitem d k = Inr v \<longleftrightarrow> (\<exists>m. d = YDict m \<and> m k = Some v)"
  by (auto simp: getitem_def split: yval.splits option.splits)

lemma setitem_Inr: "setitem d k v = Inr d' \<longleftrightarrow> (\<exists>m. d = YDict m \<and> d' = YDict (m(k \<mapsto> v)))"
  by (auto simp: setitem_def split: yval.splits)

lemma getitem2_Inr:
  "getitem2 c k1 k2 = Inr v \<longleftrightarrow>
     (\<exists>top d. c = YDict top \<and> top k1 = Some (YDict d) \<and> d k2 = Some v)"
  by (auto simp: getitem2_def bind_e_Inr getitem_Inr)

lemma setitem2_Inr:
  "setitem2 c k1 k2 v = Inr c' \<longleftrightarrow>
     (\<exists>top d. c = YDict top \<and> top k1 = Some (YDict d)
              \<and> c' = YDict (top(k1 \<mapsto> YDict (d(k2 \<mapsto> v)))))"
  by (auto simp: setitem2_def bind_e_Inr getitem_Inr setitem_Inr)

lemma append2_Inr:
  "append2 c k1 k2 v = Inr c' \<longleftrightarrow>
     (\<exists>top d xs. c = YDict top \<and> top k1 = Some (YDict d) \<and> d k2 = Some (YList xs)
              \<and> c' = YDict (top(k1 \<mapsto> YDict (d(k2 \<mapsto> YList (xs @ [v]))))))"
proof (cases "getitem2 c k1 k2")
  case (Inl e)
  then show ?thesis by (auto simp: append2_def bind_e_def getitem2_def getitem_def)
next
  case (Inr l)
  then have "append2 c k1 k2 v =
      (case l of YList xs \<Rightarrow> setitem2 c k1 k2 (YList (xs @ [v])) | _ \<Rightarrow> Inl AttributeError)"
    by (simp add: append2_def bind_e_def)
  with Inr show ?thesis
    by (cases l) (auto simp: getitem2_Inr setitem2_Inr)
qed

lemma basename_of_Inr: "basename_of v = Inr b \<longleftrightarrow> (\<exists>s. v = YStr s \<and> b = split_last s)"
  by (auto simp: basename_of_def split: yval.splits)

lemma build_config_Inr:
  assumes "build_config r t e0 e1 t0 t1 s dp xml u = Inr c"
  shows "\<exists>top sel dat mdl ev sc.
           t = Some (YDict top) \<and> top ''selection'' = Some (YDict sel)
           \<and> top ''data'' = Some (YDict dat) \<and> top ''model'' = Some (YDict mdl)
           \<and> dat ''evfile'' = Some (YStr ev) \<and> dat ''scfile'' = Some (YStr sc)
           \<and> c = YDict (top(
                 ''selection'' \<mapsto> YDict (sel(''emin'' \<mapsto> YNum e0, ''emax'' \<mapsto> YNum e1,
                    ''tmin'' \<mapsto> YNum t0, ''tmax'' \<mapsto> YNum t1, ''target'' \<mapsto> YStr s)),
                 ''data'' \<mapsto> YDict (dat(''evfile'' \<mapsto> YStr (os_path_join dp (split_last ev)),
                    ''scfile'' \<mapsto> YStr (os_path_join dp (split_last sc)))),
                 ''model'' \<mapsto> YDict (mdl(''catalogs'' \<mapsto>
                    YList ((case xml of None \<Rightarrow> [] | Some p \<Rightarrow> [YStr p])
                           @ (if u then [YStr ''3FGL''] else []))))))"
  using assms unfolding build_config_def
  by (auto simp: bind_e_Inr setitem2_Inr getitem2_Inr append2_Inr basename_of_Inr
        split: option.splits if_splits)

lemma run_fit_success:
  assumes "fst (run_fit env args w) = Inr ()"
  shows "\<exists>basepath tmin tmax fs1 config.
           outfolder args = Some basepath
           \<and> time_window args (fsys w) = Inr (tmin, tmax)
           \<and> setup_data_files (data_path args) (fsys w) = (Inr (), fs1)
           \<and> build_config (float_repr env) (default_yaml env) (emin args) (emax args) tmin tmax
                (replace_underscore (target_src args)) (data_path args) (xml_path args)
                (use_3FGL args) = Inr config
           \<and> trace (snd (run_fit env args w)) = trace w @ engine_calls args basepath config"
proof (cases "outfolder args")
  case None
  with assms show ?thesis
    by (auto simp: run_fit_eq output_folder_None split: sum.splits prod.splits)
next
  case (Some p)
  with assms show ?thesis
    by (auto simp: run_fit_eq output_folder_Some Let_def split: sum.splits prod.splits)
qed

lemma crab_setup:
  "fst (setup_data_files ''/data/crab'' [''/data/crab'' \<mapsto> crab_dir]) = Inr ()"
  by (simp add: setup_data_files_def crab_dir_def Let_def)

lemma crab_build:
  "\<exists>c. build_config r (Some crab_template) e0 e1 t0 t1 s ''/data/crab'' x u = Inr c"
  by (cases x; cases u)
    (simp_all add: build_config_def crab_template_def bind_e_def setitem2_def getitem2_def
       getitem_def setitem_def basename_of_def append2_def)

lemma crab_run_ok:
  assumes "data_path a = ''/data/crab''" and "outfolder a = Some p" and "time_range a = Some tr"
  shows "fst (run_fit crab_env a crab_world) = Inr ()"
proof -
  obtain t0 t1 where tw: "time_window a (fsys crab_world) = Inr (t0, t1)"
    using assms(3) by (cases tr) (simp add: time_window_def)
  obtain fs1 where sd: "setup_data_files (data_path a) (fsys crab_world) = (Inr (), fs1)"
    using crab_setup assms(1) by (cases "setup_data_files ''/data/crab'' [''/data/crab'' \<mapsto> crab_dir]")
      (simp add: crab_world_def)
  obtain c where bc: "build_config (float_repr crab_env) (default_yaml crab_env) (emin a) (emax a) t0 t1
      (replace_underscore (target_src a)) (data_path a) (xml_path a) (use_3FGL a) = Inr c"
    using crab_build [of format_f0 "emin a" "emax a" t0 t1 "replace_underscore (target_src a)"
        "xml_path a" "use_3FGL a"] assms(1)
    by (auto simp: crab_env_def)
  show ?thesis
    by (simp add: run_fit_eq tw sd bc output_folder_Some [OF assms(2)] Let_def)
qed

lemma free_sources_irrelevant:
  assumes "free_radius args = Some r"
  shows "run_fit env (args\<lparr>free_sources := x\<rparr>) w = run_fit env args w"
proof -
  let ?a = "args\<lparr>free_sources := x\<rparr>"
  have tw: "time_window ?a = time_window args"
    by (simp add: time_window_def fun_eq_iff split: option.splits)
  have ofo: "output_folder env ?a = output_folder env args"
    by (simp add: output_folder_def fun_eq_iff split: option.splits)
  have fc: "free_calls ?a = free_calls args"
    using assms by (simp add: free_calls_def)
  have ct: "configure_target s ?a = configure_target s args" for s
    by (simp add: configure_target_def)
  have dc: "diffuse_calls ?a = diffuse_calls args"
    by (simp add: diffuse_calls_def)
  have an: "artifact_name env p s ?a = artifact_name env p s args" for p s
    by (simp add: artifact_name_def)
  show ?thesis
    by (simp add: run_fit_def tw ofo fc ct dc an cong: if_cong)
qed

lemma crab_src: "replace_underscore ''Crab_Nebula'' = ''Crab Nebula''"
  by (simp add: replace_underscore_def)

lemma target_src_irrelevant:
  assumes "replace_underscore t = replace_underscore (target_src args)"
  shows "run_fit env (args\<lparr>target_src := t\<rparr>) w = run_fit env args w"
proof -
  let ?a = "args\<lparr>target_src := t\<rparr>"
  have tw: "time_window ?a = time_window args"
    by (simp add: time_window_def fun_eq_iff split: option.splits)
  have ofo: "output_folder env ?a tmin tmax = output_folder env args tmin tmax" for tmin tmax
    by (cases "outfolder args") (simp_all add: output_folder_None output_folder_Some)
  have fc: "free_calls ?a = free_calls args"
    by (simp add: free_calls_def split: option.splits)
  have ct: "configure_target s ?a = configure_target s args" for s
    by (simp add: configure_target_def)
  have dc: "diffuse_calls ?a = diffuse_calls args"
    by (simp add: diffuse_calls_def)
  have an: "artifact_name env p s ?a = artifact_name env p s args" for p s
    by (simp add: artifact_name_def)
  have src: "replace_underscore (target_src ?a) = replace_underscore (target_src args)"
    using assms by simp
  show ?thesis
    unfolding run_fit_def src
    by (simp add: tw ofo fc ct dc an cong: if_cong)
qed

lemma crab_artifact: "str_int (py_int 100) = ''100''" "str_int (py_int 100000) = ''100000''"
  by (simp_all add: str_int_def py_int_def show_nat.simps)

lemma flagged_free_source_other:
  assumes "\<forall>n p f. a \<noteq> FreeSource n (Given p) (Given f)"
  shows "flagged_free_source named src params a F = F"
  using assms by (induction named src params a F rule: flagged_free_source.induct) auto

lemma fold_flagged_free_source_other:
  assumes "\<forall>a \<in> set xs. \<forall>n p f. a \<noteq> FreeSource n (Given p) (Given f)"
  shows "fold (flagged_free_source named src params) xs F = F"
  using assms by (induction xs arbitrary: F) (simp_all add: flagged_free_source_other)

lemma engine_calls_effect:
  "fold (flagged_free_source named (replace_underscore (target_src args)) params)
     (engine_calls args basepath config) F
   = (F - params)
     \<union> selected_pars named params
         (case src_gamma args of
            Some g \<Rightarrow> Some ''norm''
          | None \<Rightarrow> if free_norm args then Some ''norm'' else None)"
proof -
  let ?src = "replace_underscore (target_src args)"
  let ?f = "flagged_free_source named ?src params"
  define before where "before =
     [WriteYaml (os_path_join basepath ''config.yaml'') config,
      GTAnalysis (os_path_join basepath ''config.yaml'') 3, Setup]
     @ free_calls args @ fst (configure_target ?src args)"
  define flagged where "flagged =
     [FreeSource ?src (Given None) (Given False),
      FreeSource ?src (Given (snd (configure_target ?src args))) (Given True)]"
  define after where "after = drop (length before + 2) (engine_calls args basepath config)"
  have split: "engine_calls args basepath config = before @ flagged @ after"
    by (simp add: engine_calls_def before_def flagged_def after_def Let_def)
  have pre: "fold ?f before G = G" for G
    by (rule fold_flagged_free_source_other)
      (auto simp: before_def free_calls_def configure_target_def split: option.splits if_splits)
  have post: "fold ?f after G = G" for G
    by (rule fold_flagged_free_source_other)
      (auto simp: after_def before_def engine_calls_def diffuse_calls_def Let_def)
  have fp: "snd (configure_target ?src args)
      = (case src_gamma args of
            Some g \<Rightarrow> Some ''norm''
          | None \<Rightarrow> if free_norm args then Some ''norm'' else None)"
    by (simp add: configure_target_def split: option.splits)
  have mid: "fold ?f flagged G
       = (G - params) \<union> selected_pars named params (snd (configure_target ?src args))" for G
    by (simp add: flagged_def selected_pars_def)
  have "fold ?f (engine_calls args basepath config) F
          = fold ?f after (fold ?f flagged (fold ?f before F))"
    by (simp add: split)
  also have "\<dots> = (F - params) \<union> selected_pars named params (snd (configure_target ?src args))"
    by (simp only: pre mid post)
  finally show ?thesis by (simp only: fp)
qed

subsection \<open>The claims\<close>

text \<open>
  C1: with emin = 100 and emax = 100000 the bin edges passed to the SED call are the
  values of \<open>np.arange(log10(100), log10(100000), 0.5)\<close>. The range is half open: the
  list is 2.0, 2.5, 3.0, 3.5, 4.0, 4.5 and the upper edge 5.0 = log10(emax) is not in it,
  so the list differs from 2.0, 2.5, ..., 5.0. In the concrete run the \<open>sed\<close> call for
  \<open>sed_emin_100_emax_100000.fits\<close> receives exactly these six edges.
\<close>

theorem loge_bins_100_100000:
  "loge_bins 100 100000 = [2, 5 / 2, 3, 7 / 2, 4, 9 / 2]
   \<and> 5 \<notin> set (loge_bins 100 100000)
   \<and> loge_bins 100 100000 \<noteq> [2, 5 / 2, 3, 7 / 2, 4, 9 / 2, 5]
   \<and> Sed ''Crab Nebula'' ''sed_emin_100_emax_100000.fits'' [2, 5 / 2, 3, 7 / 2, 4, 9 / 2]
        None (Some 3)
        \<in> set (trace (snd (run_fit crab_env crab_args crab_world)))"
proof -
  have n: "nat \<lceil>((5::real) - 2) / (1 / 2)\<rceil> = 6" by simp
  have bins: "loge_bins 100 100000 = [2, 5 / 2, 3, 7 / 2, 4, 9 / 2]"
    unfolding loge_bins_def np_arange_def log10_100 log10_100000 n upt_0_6 by simp
  have ok: "fst (run_fit crab_env crab_args crab_world) = Inr ()"
    by (rule crab_run_ok [where p = "''/out/crab''" and tr = "(55000, 55010)"])
      (simp_all add: crab_args_def)
  from run_fit_success [OF ok] obtain basepath config where
    tr: "trace (snd (run_fit crab_env crab_args crab_world))
           = trace crab_world @ engine_calls crab_args basepath config"
    by auto
  have a: "emin crab_args = 100" "emax crab_args = 100000" "no_sed crab_args = False"
    "target_src crab_args = ''Crab_Nebula''" "free_radius crab_args = Some 3"
    "src_gamma crab_args = None" "free_norm crab_args = False"
    by (simp_all add: crab_args_def)
  have sed: "Sed ''Crab Nebula'' ''sed_emin_100_emax_100000.fits'' [2, 5 / 2, 3, 7 / 2, 4, 9 / 2]
        None (Some 3) \<in> set (trace (snd (run_fit crab_env crab_args crab_world)))"
    unfolding tr
    by (simp add: engine_calls_def configure_target_def a crab_artifact crab_src bins Let_def)
  from bins sed show ?thesis by simp
qed

text \<open>
  C4: converting an MJD value to mission elapsed time and back gives the value again,
  exactly, in real arithmetic.
\<close>

theorem MET_to_MJD_MJD_to_MET: "MET_to_MJD (MJD_to_MET x) = x"
  by (simp add: MET_to_MJD_def MJD_to_MET_def diff_divide_distrib)

text \<open>
  C9: in discovery mode (no time range given), when the data directory holds at least one
  event file (a name containing \<open>PH\<close>) and every event file has the header values
  TSTART and TSTOP, the resolver returns the least TSTART and the greatest TSTOP. The list
  \<open>ts\<close> holds the header values of the event files in listing order.
\<close>

theorem get_time_window_min_max:
  assumes "time_range args = None"
    and "fs (data_path args) = Some entries"
    and "list_all2 (\<lambda>(f, c) (t0, t1). \<exists>h. c = Fits h \<and> h ''TSTART'' = Some t0 \<and> h ''TSTOP'' = Some t1)
           (filter (\<lambda>(f, c). str_in ''PH'' f) entries) ts"
    and "ts \<noteq> []"
  shows "get_time_window fs (data_path args) = Inr (Min (set (map fst ts)), Max (set (map snd ts)))
         \<and> time_window args fs = Inr (Min (set (map fst ts)), Max (set (map snd ts)))"
  using assms
  by (simp add: get_time_window_def time_window_def read_headers_known np_min_Min np_max_Max)

theorem get_time_window_min_max_witness:
  "time_range (crab_args\<lparr>time_range := None\<rparr>) = None
   \<and> fsys crab_world (data_path (crab_args\<lparr>time_range := None\<rparr>)) = Some crab_dir
   \<and> list_all2 (\<lambda>(f, c) (t0, t1). \<exists>h. c = Fits h \<and> h ''TSTART'' = Some t0 \<and> h ''TSTOP'' = Some t1)
        (filter (\<lambda>(f, c). str_in ''PH'' f) crab_dir)
        [(239557417, 255000000), (255000000, 270000000 :: real)]
   \<and> [(239557417, 255000000), (255000000, 270000000 :: real)] \<noteq> []
   \<and> time_window (crab_args\<lparr>time_range := None\<rparr>) (fsys crab_world)
       = Inr (239557417, 270000000)"
proof -
  let ?a = "crab_args\<lparr>time_range := None\<rparr>"
  let ?ts = "[(239557417, 255000000), (255000000, 270000000 :: real)]"
  have h1: "time_range ?a = None" by simp
  have h2: "fsys crab_world (data_path ?a) = Some crab_dir"
    by (simp add: crab_world_def crab_args_def)
  have h3: "list_all2 (\<lambda>(f, c) (t0, t1). \<exists>h. c = Fits h \<and> h ''TSTART'' = Some t0 \<and> h ''TSTOP'' = Some t1)
        (filter (\<lambda>(f, c). str_in ''PH'' f) crab_dir) ?ts"
    by (simp add: crab_dir_def)
  have h4: "?ts \<noteq> []" by simp
  from get_time_window_min_max [of ?a "fsys crab_world" crab_dir ?ts, OF h1 h2 h3 h4] h1 h2 h3 h4
  show ?thesis by simp
qed

text \<open>
  C3: for a data directory without \<open>spacecraft.fits\<close>: when exactly one name contains
  \<open>SC\<close>, the File Preparer succeeds and that file is renamed to \<open>spacecraft.fits\<close> (its
  content is found under the new name, the old name is gone, the other entries stay); when
  the number of such names is not one, it raises the exception of line 23. That exception
  is the only one the program raises itself: a run ends with it only if the data directory
  has no \<open>spacecraft.fits\<close> and the number of \<open>SC\<close> names is not one.
\<close>

theorem setup_data_files_spacecraft:
  assumes "fs folder = Some entries" and "''spacecraft.fits'' \<notin> set (map fst entries)"
  shows "(\<forall>f c. filter (str_in ''SC'') (map fst entries) = [f] \<longrightarrow> (f, c) \<in> set entries \<longrightarrow>
            (\<exists>entries'. setup_data_files folder fs = (Inr (), fs(folder \<mapsto> entries'))
               \<and> (''spacecraft.fits'', c) \<in> set entries' \<and> f \<notin> set (map fst entries')
               \<and> (\<forall>e \<in> set entries. fst e \<noteq> f \<longrightarrow> e \<in> set entries')))
       \<and> (length (filter (str_in ''SC'') (map fst entries)) \<noteq> 1 \<longrightarrow>
            fst (setup_data_files folder fs) = Inl NoSpacecraftFile)
       \<and> (\<forall>env args w. fst (run_fit env args w) = Inl NoSpacecraftFile \<longrightarrow>
            (\<exists>es. fsys w (data_path args) = Some es \<and> ''spacecraft.fits'' \<notin> set (map fst es)
                  \<and> length (filter (str_in ''SC'') (map fst es)) \<noteq> 1))"
proof (intro conjI allI impI)
  fix f c
  assume one: "filter (str_in ''SC'') (map fst entries) = [f]" and fc: "(f, c) \<in> set entries"
  define entries1 where "entries1 =
     (if ''events.txt'' \<notin> set (map fst entries)
      then entries @ [(''events.txt'',
             Text (join_lines (map (os_path_join folder) (filter (str_in ''PH'') (map fst entries)))))]
      else entries)"
  define entries' where "entries' = os_rename f ''spacecraft.fits'' entries1"
  have fin: "f \<in> set (filter (str_in ''SC'') (map fst entries))" using one by simp
  then have fSC: "str_in ''SC'' f" and fnames: "f \<in> set (map fst entries)" by auto
  have fne: "f \<noteq> ''spacecraft.fits''" using fnames assms(2) by metis
  have fev: "f \<noteq> ''events.txt''" using fSC by auto
  have nosc1: "''spacecraft.fits'' \<notin> set (map fst entries1)"
    using assms(2) by (auto simp: entries1_def)
  have flt: "filter (\<lambda>(n, c). n \<noteq> ''spacecraft.fits'') entries1 = entries1"
    using nosc1 by (force simp: filter_id_conv)
  have ren: "entries' = map (\<lambda>(n, c). if n = f then (''spacecraft.fits'', c) else (n, c)) entries1"
    by (simp add: entries'_def os_rename_def flt)
  have sub: "set entries \<subseteq> set entries1" by (auto simp: entries1_def)
  have run: "setup_data_files folder fs = (Inr (), fs(folder \<mapsto> entries'))"
    using assms one by (simp add: setup_data_files_def Let_def entries'_def entries1_def)
  have a: "(''spacecraft.fits'', c) \<in> set entries'"
    using fc sub by (force simp: ren)
  have b: "f \<notin> set (map fst entries')"
    using fne by (auto simp: ren split: if_splits)
  have c: "\<forall>e \<in> set entries. fst e \<noteq> f \<longrightarrow> e \<in> set entries'"
    using sub by (force simp: ren)
  from run a b c
  show "\<exists>entries'. setup_data_files folder fs = (Inr (), fs(folder \<mapsto> entries'))
               \<and> (''spacecraft.fits'', c) \<in> set entries' \<and> f \<notin> set (map fst entries')
               \<and> (\<forall>e \<in> set entries. fst e \<noteq> f \<longrightarrow> e \<in> set entries')"
    by blast
next
  assume "length (filter (str_in ''SC'') (map fst entries)) \<noteq> 1"
  with assms show "fst (setup_data_files folder fs) = Inl NoSpacecraftFile"
    by (simp add: setup_data_files_def Let_def)
next
  fix env args w
  assume "fst (run_fit env args w) = Inl NoSpacecraftFile"
  then show "\<exists>es. fsys w (data_path args) = Some es \<and> ''spacecraft.fits'' \<notin> set (map fst es)
                  \<and> length (filter (str_in ''SC'') (map fst es)) \<noteq> 1"
    by (rule run_fit_NoSpacecraftFile)
qed

theorem setup_data_files_spacecraft_witness:
  "[''/data/crab'' \<mapsto> crab_dir] ''/data/crab'' = Some crab_dir
   \<and> ''spacecraft.fits'' \<notin> set (map fst crab_dir)
   \<and> filter (str_in ''SC'') (map fst crab_dir) = [''L18_SC00.fits'']
   \<and> (''L18_SC00.fits'', Opaque) \<in> set crab_dir
   \<and> (\<exists>entries'. setup_data_files ''/data/crab'' [''/data/crab'' \<mapsto> crab_dir]
                      = (Inr (), [''/data/crab'' \<mapsto> crab_dir](''/data/crab'' \<mapsto> entries'))
          \<and> (''spacecraft.fits'', Opaque) \<in> set entries'
          \<and> ''L18_SC00.fits'' \<notin> set (map fst entries'))
   \<and> [''/data/two'' \<mapsto> [(''a_SC1.fits'', Opaque), (''b_SC2.fits'', Opaque)]] ''/data/two''
       = Some [(''a_SC1.fits'', Opaque), (''b_SC2.fits'', Opaque)]
   \<and> ''spacecraft.fits'' \<notin> set (map fst [(''a_SC1.fits'', Opaque), (''b_SC2.fits'', Opaque)])
   \<and> length (filter (str_in ''SC'') (map fst [(''a_SC1.fits'', Opaque), (''b_SC2.fits'', Opaque)])) \<noteq> 1
   \<and> fst (setup_data_files ''/data/two''
            [''/data/two'' \<mapsto> [(''a_SC1.fits'', Opaque), (''b_SC2.fits'', Opaque)]])
       = Inl NoSpacecraftFile
   \<and> fst (run_fit crab_env (crab_args\<lparr>data_path := ''/data/two''\<rparr>)
            \<lparr>fsys = [''/data/two'' \<mapsto> [(''a_SC1.fits'', Opaque), (''b_SC2.fits'', Opaque)]],
             trace = []\<rparr>) = Inl NoSpacecraftFile
   \<and> (\<exists>es. [''/data/two'' \<mapsto> [(''a_SC1.fits'', Opaque), (''b_SC2.fits'', Opaque)]] ''/data/two''
               = Some es
            \<and> ''spacecraft.fits'' \<notin> set (map fst es)
            \<and> length (filter (str_in ''SC'') (map fst es)) \<noteq> 1)"
proof -
  let ?fs = "[''/data/crab'' \<mapsto> crab_dir]"
  let ?two = "[(''a_SC1.fits'', Opaque), (''b_SC2.fits'', Opaque)]"
  let ?fs2 = "[''/data/two'' \<mapsto> ?two]"
  have h1: "?fs ''/data/crab'' = Some crab_dir" by simp
  have h2: "''spacecraft.fits'' \<notin> set (map fst crab_dir)" by (simp add: crab_dir_def)
  have h3: "filter (str_in ''SC'') (map fst crab_dir) = [''L18_SC00.fits'']"
    by (simp add: crab_dir_def)
  have h4: "(''L18_SC00.fits'', Opaque) \<in> set crab_dir" by (simp add: crab_dir_def)
  have g1: "?fs2 ''/data/two'' = Some ?two" by simp
  have g2: "''spacecraft.fits'' \<notin> set (map fst ?two)" by simp
  have g3: "length (filter (str_in ''SC'') (map fst ?two)) \<noteq> 1" by simp
  from setup_data_files_spacecraft [of ?fs "''/data/crab''" crab_dir, OF h1 h2] h3 h4
  have c1: "\<exists>entries'. setup_data_files ''/data/crab'' ?fs
                      = (Inr (), ?fs(''/data/crab'' \<mapsto> entries'))
          \<and> (''spacecraft.fits'', Opaque) \<in> set entries'
          \<and> ''L18_SC00.fits'' \<notin> set (map fst entries')"
    by blast
  from setup_data_files_spacecraft [of ?fs2 "''/data/two''" ?two, OF g1 g2] g3
  have c2: "fst (setup_data_files ''/data/two'' ?fs2) = Inl NoSpacecraftFile"
    by blast
  let ?a2 = "crab_args\<lparr>data_path := ''/data/two''\<rparr>"
  let ?w2 = "\<lparr>fsys = ?fs2, trace = []\<rparr>"
  have r: "fst (run_fit crab_env ?a2 ?w2) = Inl NoSpacecraftFile"
    by (simp add: run_fit_eq time_window_def output_folder_def crab_args_def
          setup_data_files_def Let_def)
  from setup_data_files_spacecraft [of ?fs2 "''/data/two''" ?two, OF g1 g2] r
  have c3: "\<exists>es. fsys ?w2 (data_path ?a2) = Some es
            \<and> ''spacecraft.fits'' \<notin> set (map fst es)
            \<and> length (filter (str_in ''SC'') (map fst es)) \<noteq> 1"
    by blast
  have c3': "\<exists>es. ?fs2 ''/data/two'' = Some es
            \<and> ''spacecraft.fits'' \<notin> set (map fst es)
            \<and> length (filter (str_in ''SC'') (map fst es)) \<noteq> 1"
    using c3 by simp
  from h1 h2 h3 h4 c1 g1 g2 g3 c2 r c3' show ?thesis by (intro conjI)
qed

text \<open>
  C2, amended: with no output folder supplied, the default directory name formats the
  source-name string with \<open>{:.0f}\<close>, which raises. The run then always fails and leaves the
  file system and the engine untouched (no data file prepared, no configuration written,
  no engine call). The error is the formatting error whenever the time window is resolved,
  in particular whenever a time range is supplied; when discovery of the time window
  fails, that earlier error is the one raised.
\<close>

theorem run_fit_default_outfolder:
  assumes "outfolder args = None"
  shows "(\<forall>tmin tmax. output_folder env args tmin tmax = Inl ValueError_format_code)
       \<and> snd (run_fit env args w) = w
       \<and> (\<exists>e. fst (run_fit env args w) = Inl e)
       \<and> (\<forall>t. time_window args (fsys w) = Inr t \<longrightarrow>
             fst (run_fit env args w) = Inl ValueError_format_code)
       \<and> (\<forall>tr. time_range args = Some tr \<longrightarrow>
             fst (run_fit env args w) = Inl ValueError_format_code)
       \<and> (\<forall>e. time_window args (fsys w) = Inl e \<longrightarrow> fst (run_fit env args w) = Inl e)"
proof -
  have ofo: "output_folder env args tmin tmax = Inl ValueError_format_code" for tmin tmax
    using assms by (rule output_folder_None)
  have run: "run_fit env args w =
      (case time_window args (fsys w) of Inl e \<Rightarrow> (Inl e, w)
       | Inr t \<Rightarrow> (Inl ValueError_format_code, w))"
    by (simp add: run_fit_eq ofo split: sum.splits prod.splits)
  have expl: "time_window args (fsys w) = Inr (MJD_to_MET (fst tr), MJD_to_MET (snd tr))"
    if "time_range args = Some tr" for tr
    using that by (cases tr) (simp add: time_window_def)
  show ?thesis
    using ofo expl by (auto simp: run split: sum.splits)
qed

theorem run_fit_default_outfolder_witness:
  "outfolder (crab_args\<lparr>outfolder := None\<rparr>) = None
   \<and> time_range (crab_args\<lparr>outfolder := None\<rparr>) = Some (55000, 55010)
   \<and> snd (run_fit crab_env (crab_args\<lparr>outfolder := None\<rparr>) crab_world) = crab_world
   \<and> fst (run_fit crab_env (crab_args\<lparr>outfolder := None\<rparr>) crab_world)
       = Inl ValueError_format_code"
proof -
  let ?a = "crab_args\<lparr>outfolder := None\<rparr>"
  have h: "outfolder ?a = None" by simp
  have t: "time_range ?a = Some (55000, 55010)" by (simp add: crab_args_def)
  from run_fit_default_outfolder [of ?a crab_env crab_world, OF h] h t show ?thesis
    by blast
qed

text \<open>
  C2 as stated fails: in discovery mode on a data directory without event files the run
  ends in line 36 with the \<open>ValueError\<close> of \<open>np.min\<close> on an empty list, before the
  directory name is formatted.
\<close>

theorem run_fit_default_outfolder_counterexample:
  "outfolder (crab_args\<lparr>time_range := None, outfolder := None\<rparr>) = None
   \<and> fst (run_fit crab_env (crab_args\<lparr>time_range := None, outfolder := None\<rparr>)
            \<lparr>fsys = [''/data/crab'' \<mapsto> [(''L18_SC00.fits'', Opaque)]], trace = []\<rparr>)
       = Inl ValueError_empty_reduction
   \<and> fst (run_fit crab_env (crab_args\<lparr>time_range := None, outfolder := None\<rparr>)
            \<lparr>fsys = [''/data/crab'' \<mapsto> [(''L18_SC00.fits'', Opaque)]], trace = []\<rparr>)
       \<noteq> Inl ValueError_format_code"
  by (simp add: run_fit_eq time_window_def get_time_window_def crab_args_def)

text \<open>
  C5: the conversion to mission elapsed time is \<open>met = (mjd - MJDREF) * 86400\<close> with
  \<open>MJDREF = 51910.0 + 7.428703703703703E-4\<close>, for every MJD value; when a time range is
  supplied, both of its bounds are converted this way: they are the resolved time window
  and the \<open>tmin\<close> and \<open>tmax\<close> of the configuration the run writes.
\<close>

theorem explicit_time_range_converted:
  assumes "time_range args = Some (mjd0, mjd1)" and "fst (run_fit env args w) = Inr ()"
  shows "(\<forall>x. MJD_to_MET x = (x - (51910 + 7428703703703703 / 10 ^ 19)) * 86400)
       \<and> time_window args (fsys w) = Inr (MJD_to_MET mjd0, MJD_to_MET mjd1)
       \<and> (\<exists>path config rest.
             trace (snd (run_fit env args w)) = trace w @ WriteYaml path config # rest
             \<and> getitem2 config ''selection'' ''tmin''
                 = Inr (YNum ((mjd0 - (51910 + 7428703703703703 / 10 ^ 19)) * 86400))
             \<and> getitem2 config ''selection'' ''tmax''
                 = Inr (YNum ((mjd1 - (51910 + 7428703703703703 / 10 ^ 19)) * 86400)))"
proof -
  have conv: "MJD_to_MET x = (x - (51910 + 7428703703703703 / 10 ^ 19)) * 86400" for x
    by (simp add: MJD_to_MET_def MJDREF_def)
  have tw: "time_window args (fsys w) = Inr (MJD_to_MET mjd0, MJD_to_MET mjd1)"
    using assms(1) by (simp add: time_window_def)
  from run_fit_success [OF assms(2)] tw obtain basepath config where
    bc: "build_config (float_repr env) (default_yaml env) (emin args) (emax args)
           (MJD_to_MET mjd0) (MJD_to_MET mjd1) (replace_underscore (target_src args))
           (data_path args) (xml_path args) (use_3FGL args) = Inr config"
    and tr: "trace (snd (run_fit env args w)) = trace w @ engine_calls args basepath config"
    by auto
  from build_config_Inr [OF bc]
  have g: "getitem2 config ''selection'' ''tmin'' = Inr (YNum (MJD_to_MET mjd0))
         \<and> getitem2 config ''selection'' ''tmax'' = Inr (YNum (MJD_to_MET mjd1))"
    by (auto simp: getitem2_def getitem_def bind_e_def)
  have "\<exists>rest. engine_calls args basepath config
          = WriteYaml (os_path_join basepath ''config.yaml'') config # rest"
    by (simp add: engine_calls_def Let_def)
  with tr g conv tw show ?thesis by (metis (no_types, lifting))
qed

theorem explicit_time_range_converted_witness:
  "time_range crab_args = Some (55000, 55010)
   \<and> fst (run_fit crab_env crab_args crab_world) = Inr ()
   \<and> time_window crab_args (fsys crab_world) = Inr (MJD_to_MET 55000, MJD_to_MET 55010)
   \<and> (\<exists>path config rest.
         trace (snd (run_fit crab_env crab_args crab_world))
           = trace crab_world @ WriteYaml path config # rest
         \<and> getitem2 config ''selection'' ''tmin''
             = Inr (YNum ((55000 - (51910 + 7428703703703703 / 10 ^ 19)) * 86400))
         \<and> getitem2 config ''selection'' ''tmax''
             = Inr (YNum ((55010 - (51910 + 7428703703703703 / 10 ^ 19)) * 86400)))"
proof -
  have h1: "time_range crab_args = Some (55000, 55010)" by (simp add: crab_args_def)
  have h2: "fst (run_fit crab_env crab_args crab_world) = Inr ()"
    by (rule crab_run_ok [where p = "''/out/crab''" and tr = "(55000, 55010)"])
      (simp_all add: crab_args_def)
  from explicit_time_range_converted [OF h1 h2] h1 h2 show ?thesis by blast
qed

text \<open>
  C6: when both a free radius and an explicit list of sources are supplied, the run is the
  same as without the list, and after the engine's setup the only freeing of other sources
  is one \<open>free_sources\<close> call with the radius, the TS range \<open>[2, None]\<close> and the two
  diffuse components excluded: no further radius call follows and no per-source call of
  the kind the list would produce (\<open>free_source(key)\<close> with no keyword) is made.
\<close>

theorem radius_takes_precedence:
  assumes "free_radius args = Some r" and "free_sources args = Some keys"
    and "fst (run_fit env args w) = Inr ()"
  shows "run_fit env args w = run_fit env (args\<lparr>free_sources := None\<rparr>) w
       \<and> (\<exists>path config rest.
             trace (snd (run_fit env args w))
               = trace w @ [WriteYaml path config, GTAnalysis path 3, Setup,
                            FreeSources r [Some 2, None] [''isodiff'', ''galdiff'']] @ rest
             \<and> (\<forall>a \<in> set rest. (\<forall>d t x. a \<noteq> FreeSources d t x)
                                 \<and> (\<forall>k. a \<noteq> FreeSource k Omitted Omitted)))"
proof -
  have eq: "run_fit env args w = run_fit env (args\<lparr>free_sources := None\<rparr>) w"
    using free_sources_irrelevant [OF assms(1), of env None w] by simp
  from run_fit_success [OF assms(3)] obtain basepath config where
    tr: "trace (snd (run_fit env args w)) = trace w @ engine_calls args basepath config"
    by auto
  define rest where "rest = drop 4 (engine_calls args basepath config)"
  have ec: "engine_calls args basepath config
      = [WriteYaml (os_path_join basepath ''config.yaml'') config,
         GTAnalysis (os_path_join basepath ''config.yaml'') 3, Setup,
         FreeSources r [Some 2, None] [''isodiff'', ''galdiff'']] @ rest"
    using assms(1) by (simp add: rest_def engine_calls_def free_calls_def Let_def)
  have rs: "\<forall>a \<in> set rest. (\<forall>d t x. a \<noteq> FreeSources d t x)
                                 \<and> (\<forall>k. a \<noteq> FreeSource k Omitted Omitted)"
    using assms(1)
    by (auto simp: rest_def engine_calls_def free_calls_def configure_target_def
          diffuse_calls_def Let_def split: option.splits if_splits)
  from eq tr ec rs show ?thesis by (metis (no_types, lifting))
qed

theorem radius_takes_precedence_witness:
  "free_radius crab_args = Some 3 \<and> free_sources crab_args = Some [''PKS_0528+134'']
   \<and> fst (run_fit crab_env crab_args crab_world) = Inr ()
   \<and> run_fit crab_env crab_args crab_world
       = run_fit crab_env (crab_args\<lparr>free_sources := None\<rparr>) crab_world
   \<and> (\<exists>path config rest.
         trace (snd (run_fit crab_env crab_args crab_world))
           = trace crab_world @ [WriteYaml path config, GTAnalysis path 3, Setup,
                        FreeSources 3 [Some 2, None] [''isodiff'', ''galdiff'']] @ rest
         \<and> FreeSource ''PKS_0528+134'' Omitted Omitted \<notin> set rest)"
proof -
  have h1: "free_radius crab_args = Some 3" by (simp add: crab_args_def)
  have h2: "free_sources crab_args = Some [''PKS_0528+134'']" by (simp add: crab_args_def)
  have h3: "fst (run_fit crab_env crab_args crab_world) = Inr ()"
    by (rule crab_run_ok [where p = "''/out/crab''" and tr = "(55000, 55010)"])
      (simp_all add: crab_args_def)
  from radius_takes_precedence [OF h1 h2 h3] h1 h2 h3 show ?thesis by blast
qed

text \<open>
  C7, amended: after the setup and the freeing of other sources, a run that gets that far
  makes the calls of a three-way decision on the target (named \<open>src\<close>, the target with
  underscores replaced): with an index override, \<open>set_parameter(src, "Index", gamma)\<close> and
  \<open>free_pars = 'norm'\<close>; otherwise with the free-normalization flag, \<open>free_pars = 'norm'\<close>
  and nothing else; otherwise \<open>optimize()\<close> and \<open>free_pars = None\<close>. In all three cases
  the next two calls are \<open>free_source(src, pars=None, free=False)\<close> and
  \<open>free_source(src, pars=free_pars, free=True)\<close>, and no other call of the run is an
  \<open>optimize\<close>, a \<open>set_parameter\<close> or a \<open>free_source\<close> with an explicit \<open>free\<close> flag.
  Read as the un-free call has to be read, the two calls first fix every parameter of the
  target and then free the parameters \<open>free_pars\<close> addresses: the normalization group in
  the first two cases, and in the third case, where \<open>pars=None\<close> addresses all
  parameters as it does in the un-free call, every parameter of the target.
\<close>

theorem target_configuration:
  assumes "fst (run_fit env args w) = Inr ()"
  shows "(\<exists>path config post.
           trace (snd (run_fit env args w))
             = trace w @ [WriteYaml path config, GTAnalysis path 3, Setup] @ free_calls args
               @ (case src_gamma args of
                    Some g \<Rightarrow>
                      [SetParameter (replace_underscore (target_src args)) ''Index'' g,
                       FreeSource (replace_underscore (target_src args)) (Given None) (Given False),
                       FreeSource (replace_underscore (target_src args)) (Given (Some ''norm''))
                         (Given True)]
                  | None \<Rightarrow>
                      if free_norm args
                      then [FreeSource (replace_underscore (target_src args)) (Given None)
                              (Given False),
                            FreeSource (replace_underscore (target_src args))
                              (Given (Some ''norm'')) (Given True)]
                      else [Optimize,
                            FreeSource (replace_underscore (target_src args)) (Given None)
                              (Given False),
                            FreeSource (replace_underscore (target_src args)) (Given None)
                              (Given True)])
               @ post
           \<and> (\<forall>a \<in> set (free_calls args @ post).
                 a \<noteq> Optimize \<and> (\<forall>n p v. a \<noteq> SetParameter n p v)
                 \<and> (\<forall>n p f. a \<noteq> FreeSource n p (Given f))))
       \<and> (\<forall>named params F.
             fold (flagged_free_source named (replace_underscore (target_src args)) params)
               (drop (length (trace w)) (trace (snd (run_fit env args w)))) F
             = (F - params)
               \<union> selected_pars named params
                   (case src_gamma args of
                      Some g \<Rightarrow> Some ''norm''
                    | None \<Rightarrow> if free_norm args then Some ''norm'' else None))"
proof -
  from run_fit_success [OF assms] obtain basepath config where
    tr: "trace (snd (run_fit env args w)) = trace w @ engine_calls args basepath config"
    by auto
  let ?src = "replace_underscore (target_src args)"
  define post where "post = diffuse_calls args
         @ [Fit (retries args),
            WriteRoi (''llh_emin_'' @ str_int (py_int (emin args)) @ ''_emax_''
                        @ str_int (py_int (emax args)) @ ''.npy''),
            Bowtie ?src,
            NpSave (os_path_join basepath (''bowtie_emin_'' @ str_int (py_int (emin args))
                        @ ''_emax_'' @ str_int (py_int (emax args)) @ ''.npy''))]
         @ (if no_sed args then []
            else [Sed ?src (''sed_emin_'' @ str_int (py_int (emin args)) @ ''_emax_''
                        @ str_int (py_int (emax args)) @ ''.fits'')
                    (loge_bins (emin args) (emax args))
                    (snd (configure_target ?src args)) (free_radius args)])"
  have ec: "engine_calls args basepath config
      = [WriteYaml (os_path_join basepath ''config.yaml'') config,
         GTAnalysis (os_path_join basepath ''config.yaml'') 3, Setup] @ free_calls args
        @ (case src_gamma args of
             Some g \<Rightarrow>
               [SetParameter ?src ''Index'' g,
                FreeSource ?src (Given None) (Given False),
                FreeSource ?src (Given (Some ''norm'')) (Given True)]
           | None \<Rightarrow>
               if free_norm args
               then [FreeSource ?src (Given None) (Given False),
                     FreeSource ?src (Given (Some ''norm'')) (Given True)]
               else [Optimize,
                     FreeSource ?src (Given None) (Given False),
                     FreeSource ?src (Given None) (Given True)])
        @ post"
    by (simp add: engine_calls_def post_def configure_target_def Let_def split: option.splits)
  have rs: "\<forall>a \<in> set (free_calls args @ post).
                 a \<noteq> Optimize \<and> (\<forall>n p v. a \<noteq> SetParameter n p v)
                 \<and> (\<forall>n p f. a \<noteq> FreeSource n p (Given f))"
    by (auto simp: post_def free_calls_def diffuse_calls_def split: option.splits if_splits)
  have eff: "\<forall>named params F.
             fold (flagged_free_source named ?src params)
               (drop (length (trace w)) (trace (snd (run_fit env args w)))) F
             = (F - params)
               \<union> selected_pars named params
                   (case src_gamma args of
                      Some g \<Rightarrow> Some ''norm''
                    | None \<Rightarrow> if free_norm args then Some ''norm'' else None)"
    unfolding tr by (simp add: engine_calls_effect)
  show ?thesis
    apply (rule conjI)
     apply (rule exI [of _ "os_path_join basepath ''config.yaml''"])
     apply (rule exI [of _ config])
     apply (rule exI [of _ post])
    using tr ec rs apply simp
    apply (rule eff)
    done
qed

theorem target_configuration_witness:
  "fst (run_fit crab_env crab_args crab_world) = Inr ()
   \<and> Optimize \<in> set (trace (snd (run_fit crab_env crab_args crab_world)))
   \<and> FreeSource ''Crab Nebula'' (Given None) (Given True)
        \<in> set (trace (snd (run_fit crab_env crab_args crab_world)))
   \<and> fst (run_fit crab_env (crab_args\<lparr>src_gamma := Some 2\<rparr>) crab_world) = Inr ()
   \<and> SetParameter ''Crab Nebula'' ''Index'' 2
        \<in> set (trace (snd (run_fit crab_env (crab_args\<lparr>src_gamma := Some 2\<rparr>) crab_world)))
   \<and> FreeSource ''Crab Nebula'' (Given (Some ''norm'')) (Given True)
        \<in> set (trace (snd (run_fit crab_env (crab_args\<lparr>src_gamma := Some 2\<rparr>) crab_world)))
   \<and> Optimize \<notin> set (trace (snd (run_fit crab_env (crab_args\<lparr>src_gamma := Some 2\<rparr>) crab_world)))
   \<and> fst (run_fit crab_env (crab_args\<lparr>free_norm := True\<rparr>) crab_world) = Inr ()
   \<and> FreeSource ''Crab Nebula'' (Given (Some ''norm'')) (Given True)
        \<in> set (trace (snd (run_fit crab_env (crab_args\<lparr>free_norm := True\<rparr>) crab_world)))
   \<and> Optimize \<notin> set (trace (snd (run_fit crab_env (crab_args\<lparr>free_norm := True\<rparr>) crab_world)))
   \<and> fold (flagged_free_source crab_named ''Crab Nebula'' {''Prefactor'', ''Index'', ''Scale''})
         (trace (snd (run_fit crab_env (crab_args\<lparr>src_gamma := Some 2\<rparr>) crab_world)))
         {''Index''}
       = {''Prefactor''}
   \<and> fold (flagged_free_source crab_named ''Crab Nebula'' {''Prefactor'', ''Index'', ''Scale''})
         (trace (snd (run_fit crab_env (crab_args\<lparr>free_norm := True\<rparr>) crab_world)))
         {''Index''}
       = {''Prefactor''}
   \<and> fold (flagged_free_source crab_named ''Crab Nebula'' {''Prefactor'', ''Index'', ''Scale''})
         (trace (snd (run_fit crab_env crab_args crab_world))) {''Index''}
       = {''Prefactor'', ''Index'', ''Scale''}"
proof -
  let ?g = "crab_args\<lparr>src_gamma := Some 2\<rparr>"
  let ?n = "crab_args\<lparr>free_norm := True\<rparr>"
  have h1: "fst (run_fit crab_env crab_args crab_world) = Inr ()"
    by (rule crab_run_ok [where p = "''/out/crab''" and tr = "(55000, 55010)"])
      (simp_all add: crab_args_def)
  have h2: "fst (run_fit crab_env ?g crab_world) = Inr ()"
    by (rule crab_run_ok [where p = "''/out/crab''" and tr = "(55000, 55010)"])
      (simp_all add: crab_args_def)
  have h3: "fst (run_fit crab_env ?n crab_world) = Inr ()"
    by (rule crab_run_ok [where p = "''/out/crab''" and tr = "(55000, 55010)"])
      (simp_all add: crab_args_def)
  have s1: "src_gamma crab_args = None" "free_norm crab_args = False"
    "target_src crab_args = ''Crab_Nebula''" "free_radius crab_args = Some 3"
    by (simp_all add: crab_args_def)
  have c1: "Optimize \<in> set (trace (snd (run_fit crab_env crab_args crab_world)))
     \<and> FreeSource ''Crab Nebula'' (Given None) (Given True)
        \<in> set (trace (snd (run_fit crab_env crab_args crab_world)))"
    using target_configuration [OF h1, THEN conjunct1] by (auto simp: s1 crab_src)
  have c2: "SetParameter ''Crab Nebula'' ''Index'' 2 \<in> set (trace (snd (run_fit crab_env ?g crab_world)))
     \<and> FreeSource ''Crab Nebula'' (Given (Some ''norm'')) (Given True)
        \<in> set (trace (snd (run_fit crab_env ?g crab_world)))
     \<and> Optimize \<notin> set (trace (snd (run_fit crab_env ?g crab_world)))"
    using target_configuration [OF h2, THEN conjunct1] by (auto simp: s1 crab_src crab_world_def)
  have c3: "FreeSource ''Crab Nebula'' (Given (Some ''norm'')) (Given True)
        \<in> set (trace (snd (run_fit crab_env ?n crab_world)))
     \<and> Optimize \<notin> set (trace (snd (run_fit crab_env ?n crab_world)))"
    using target_configuration [OF h3, THEN conjunct1] by (auto simp: s1 crab_src crab_world_def)
  have s2: "src_gamma ?g = Some 2" "target_src ?g = ''Crab_Nebula''"
    "src_gamma ?n = None" "free_norm ?n = True" "target_src ?n = ''Crab_Nebula''"
    "trace crab_world = []"
    by (simp_all add: crab_args_def crab_world_def)
  have e2: "fold (flagged_free_source crab_named ''Crab Nebula'' {''Prefactor'', ''Index'', ''Scale''})
         (trace (snd (run_fit crab_env ?g crab_world))) {''Index''} = {''Prefactor''}"
    using target_configuration [OF h2, THEN conjunct2]
    by (simp add: s2 crab_src selected_pars_def crab_named_def)
  have e3: "fold (flagged_free_source crab_named ''Crab Nebula'' {''Prefactor'', ''Index'', ''Scale''})
         (trace (snd (run_fit crab_env ?n crab_world))) {''Index''} = {''Prefactor''}"
    using target_configuration [OF h3, THEN conjunct2]
    by (simp add: s2 crab_src selected_pars_def crab_named_def)
  have e1: "fold (flagged_free_source crab_named ''Crab Nebula'' {''Prefactor'', ''Index'', ''Scale''})
         (trace (snd (run_fit crab_env crab_args crab_world))) {''Index''}
       = {''Prefactor'', ''Index'', ''Scale''}"
    using target_configuration [OF h1, THEN conjunct2, rule_format,
        of crab_named "{''Prefactor'', ''Index'', ''Scale''}" "{''Index''}"]
    by (auto simp: s1 s2 crab_src selected_pars_def)
  from h1 h2 h3 c1 c2 c3 e2 e3 e1 show ?thesis by (intro conjI) blast+
qed

text \<open>
  C7 as stated fails in the third case: the re-free call passes \<open>pars=None\<close>, as the
  un-free call does. Where the un-free call fixes all parameters of the target, the
  re-free call frees all of them: a power-law target that starts with no free parameter
  ends the run with its three parameters free, not with none.
\<close>

theorem target_configuration_counterexample:
  "fst (run_fit crab_env crab_args crab_world) = Inr ()
   \<and> src_gamma crab_args = None \<and> free_norm crab_args = False
   \<and> FreeSource ''Crab Nebula'' (Given None) (Given False)
        \<in> set (trace (snd (run_fit crab_env crab_args crab_world)))
   \<and> FreeSource ''Crab Nebula'' (Given None) (Given True)
        \<in> set (trace (snd (run_fit crab_env crab_args crab_world)))
   \<and> fold (flagged_free_source crab_named ''Crab Nebula'' {''Prefactor'', ''Index'', ''Scale''})
         (trace (snd (run_fit crab_env crab_args crab_world))) {}
       = {''Prefactor'', ''Index'', ''Scale''}
   \<and> fold (flagged_free_source crab_named ''Crab Nebula'' {''Prefactor'', ''Index'', ''Scale''})
         (trace (snd (run_fit crab_env crab_args crab_world))) {}
       \<noteq> {}"
proof -
  have h: "fst (run_fit crab_env crab_args crab_world) = Inr ()"
    by (rule crab_run_ok [where p = "''/out/crab''" and tr = "(55000, 55010)"])
      (simp_all add: crab_args_def)
  have a: "src_gamma crab_args = None" "free_norm crab_args = False"
    "target_src crab_args = ''Crab_Nebula''" "trace crab_world = []"
    by (simp_all add: crab_args_def crab_world_def)
  from run_fit_success [OF h] obtain basepath config where
    tr: "trace (snd (run_fit crab_env crab_args crab_world))
           = trace crab_world @ engine_calls crab_args basepath config"
    by auto
  have m: "FreeSource ''Crab Nebula'' (Given None) (Given False)
             \<in> set (trace (snd (run_fit crab_env crab_args crab_world)))
           \<and> FreeSource ''Crab Nebula'' (Given None) (Given True)
             \<in> set (trace (snd (run_fit crab_env crab_args crab_world)))"
    unfolding tr by (simp add: engine_calls_def configure_target_def a crab_src Let_def)
  have e: "fold (flagged_free_source crab_named ''Crab Nebula'' {''Prefactor'', ''Index'', ''Scale''})
         (trace (snd (run_fit crab_env crab_args crab_world))) {}
       = {''Prefactor'', ''Index'', ''Scale''}"
    unfolding tr a(4)
    using engine_calls_effect [of crab_named crab_args "{''Prefactor'', ''Index'', ''Scale''}"
        basepath config "{}"]
    by (simp add: a crab_src selected_pars_def)
  from h a(1,2) m e show ?thesis by simp
qed

text \<open>
  C8: the configuration a run writes is the template with exactly these changes: in
  \<open>selection\<close> the five fields \<open>emin\<close>, \<open>emax\<close>, \<open>tmin\<close>, \<open>tmax\<close> and \<open>target\<close>
  are overwritten; in \<open>data\<close> the paths \<open>evfile\<close> and \<open>scfile\<close> become the data
  directory joined with the base name of the template's path; in \<open>model\<close> the list
  \<open>catalogs\<close> is the XML path, if one is given, followed by \<open>3FGL\<close>, if requested.
  The written document is the template's mapping updated at these keys only, so every
  other field of the template keeps its value; it is written once.
\<close>

theorem persisted_config_frame:
  assumes "fst (run_fit env args w) = Inr ()"
  shows "\<exists>top sel dat mdl ev sc tmin tmax basepath rest.
           default_yaml env = Some (YDict top)
           \<and> top ''selection'' = Some (YDict sel)
           \<and> top ''data'' = Some (YDict dat)
           \<and> top ''model'' = Some (YDict mdl)
           \<and> dat ''evfile'' = Some (YStr ev) \<and> dat ''scfile'' = Some (YStr sc)
           \<and> time_window args (fsys w) = Inr (tmin, tmax)
           \<and> outfolder args = Some basepath
           \<and> trace (snd (run_fit env args w))
               = trace w
                 @ WriteYaml (os_path_join basepath ''config.yaml'')
                     (YDict (top(
                        ''selection'' \<mapsto>
                           YDict (sel(''emin'' \<mapsto> YNum (emin args),
                                      ''emax'' \<mapsto> YNum (emax args),
                                      ''tmin'' \<mapsto> YNum tmin,
                                      ''tmax'' \<mapsto> YNum tmax,
                                      ''target'' \<mapsto> YStr (replace_underscore (target_src args)))),
                        ''data'' \<mapsto>
                           YDict (dat(''evfile'' \<mapsto>
                                         YStr (os_path_join (data_path args) (split_last ev)),
                                      ''scfile'' \<mapsto>
                                         YStr (os_path_join (data_path args) (split_last sc)))),
                        ''model'' \<mapsto>
                           YDict (mdl(''catalogs'' \<mapsto>
                                         YList ((case xml_path args of None \<Rightarrow> []
                                                 | Some p \<Rightarrow> [YStr p])
                                                @ (if use_3FGL args then [YStr ''3FGL'']
                                                   else [])))))))
                   # rest
           \<and> (\<forall>a \<in> set rest. \<forall>p c. a \<noteq> WriteYaml p c)"
proof -
  from run_fit_success [OF assms] obtain basepath tmin tmax config where
    ofo: "outfolder args = Some basepath"
    and tw: "time_window args (fsys w) = Inr (tmin, tmax)"
    and bc: "build_config (float_repr env) (default_yaml env) (emin args) (emax args)
           tmin tmax (replace_underscore (target_src args))
           (data_path args) (xml_path args) (use_3FGL args) = Inr config"
    and tr: "trace (snd (run_fit env args w)) = trace w @ engine_calls args basepath config"
    by auto
  define rest where "rest = tl (engine_calls args basepath config)"
  have ec: "engine_calls args basepath config
              = WriteYaml (os_path_join basepath ''config.yaml'') config # rest"
    by (simp add: rest_def engine_calls_def Let_def)
  have rs: "\<forall>a \<in> set rest. \<forall>p c. a \<noteq> WriteYaml p c"
    by (auto simp: rest_def engine_calls_def free_calls_def configure_target_def
          diffuse_calls_def Let_def split: option.splits if_splits)
  from build_config_Inr [OF bc] obtain top sel dat mdl ev sc where
    t1: "default_yaml env = Some (YDict top)" and t2: "top ''selection'' = Some (YDict sel)"
    and t3: "top ''data'' = Some (YDict dat)" and t4: "top ''model'' = Some (YDict mdl)"
    and t5: "dat ''evfile'' = Some (YStr ev)" and t6: "dat ''scfile'' = Some (YStr sc)"
    and c: "config = YDict (top(
                        ''selection'' \<mapsto>
                           YDict (sel(''emin'' \<mapsto> YNum (emin args),
                                      ''emax'' \<mapsto> YNum (emax args),
                                      ''tmin'' \<mapsto> YNum tmin,
                                      ''tmax'' \<mapsto> YNum tmax,
                                      ''target'' \<mapsto> YStr (replace_underscore (target_src args)))),
                        ''data'' \<mapsto>
                           YDict (dat(''evfile'' \<mapsto>
                                         YStr (os_path_join (data_path args) (split_last ev)),
                                      ''scfile'' \<mapsto>
                                         YStr (os_path_join (data_path args) (split_last sc)))),
                        ''model'' \<mapsto>
                           YDict (mdl(''catalogs'' \<mapsto>
                                         YList ((case xml_path args of None \<Rightarrow> []
                                                 | Some p \<Rightarrow> [YStr p])
                                                @ (if use_3FGL args then [YStr ''3FGL'']
                                                   else []))))))"
    by (elim exE conjE) (rule that)
  have tr': "trace (snd (run_fit env args w))
               = trace w @ WriteYaml (os_path_join basepath ''config.yaml'') config # rest"
    unfolding tr ec ..
  show ?thesis
    apply (rule exI [of _ top], rule exI [of _ sel], rule exI [of _ dat], rule exI [of _ mdl])
    apply (rule exI [of _ ev], rule exI [of _ sc], rule exI [of _ tmin], rule exI [of _ tmax])
    apply (rule exI [of _ basepath], rule exI [of _ rest])
    apply (intro conjI)
             apply (rule t1)
            apply (rule t2)
           apply (rule t3)
          apply (rule t4)
         apply (rule t5)
        apply (rule t6)
       apply (rule tw)
      apply (rule ofo)
     apply (rule tr' [unfolded c])
    apply (rule rs)
    done
qed

theorem persisted_config_frame_witness:
  "fst (run_fit crab_env crab_args crab_world) = Inr ()
   \<and> (\<exists>config rest.
         trace (snd (run_fit crab_env crab_args crab_world))
           = WriteYaml ''/out/crab/config.yaml'' config # rest
         \<and> getitem2 config ''selection'' ''emin'' = Inr (YNum 100)
         \<and> getitem2 config ''selection'' ''target'' = Inr (YStr ''Crab Nebula'')
         \<and> getitem2 config ''selection'' ''zmax'' = Inr (YNum 90)
         \<and> getitem2 config ''data'' ''evfile'' = Inr (YStr ''/data/crab/events.txt'')
         \<and> getitem2 config ''data'' ''scfile'' = Inr (YStr ''/data/crab/spacecraft.fits'')
         \<and> getitem2 config ''data'' ''ltcube'' = Inr YNull
         \<and> getitem2 config ''model'' ''catalogs'' = Inr (YList [])
         \<and> getitem2 config ''model'' ''galdiff'' = Inr (YStr ''gll_iem_v06.fits'')
         \<and> getitem2 config ''binning'' ''roiwidth'' = Inr (YNum 10))"
proof -
  have h: "fst (run_fit crab_env crab_args crab_world) = Inr ()"
    by (rule crab_run_ok [where p = "''/out/crab''" and tr = "(55000, 55010)"])
      (simp_all add: crab_args_def)
  from persisted_config_frame [OF h]
  obtain top sel dat mdl ev sc tmin tmax basepath rest where
    t1: "default_yaml crab_env = Some (YDict top)"
    and t2: "top ''selection'' = Some (YDict sel)"
    and t3: "top ''data'' = Some (YDict dat)"
    and t4: "top ''model'' = Some (YDict mdl)"
    and t5: "dat ''evfile'' = Some (YStr ev)" and t6: "dat ''scfile'' = Some (YStr sc)"
    and ofo: "outfolder crab_args = Some basepath"
    and tr: "trace (snd (run_fit crab_env crab_args crab_world))
               = trace crab_world
                 @ WriteYaml (os_path_join basepath ''config.yaml'')
                     (YDict (top(
                        ''selection'' \<mapsto>
                           YDict (sel(''emin'' \<mapsto> YNum (emin crab_args),
                                      ''emax'' \<mapsto> YNum (emax crab_args),
                                      ''tmin'' \<mapsto> YNum tmin,
                                      ''tmax'' \<mapsto> YNum tmax,
                                      ''target'' \<mapsto> YStr (replace_underscore (target_src crab_args)))),
                        ''data'' \<mapsto>
                           YDict (dat(''evfile'' \<mapsto>
                                         YStr (os_path_join (data_path crab_args) (split_last ev)),
                                      ''scfile'' \<mapsto>
                                         YStr (os_path_join (data_path crab_args) (split_last sc)))),
                        ''model'' \<mapsto>
                           YDict (mdl(''catalogs'' \<mapsto>
                                         YList ((case xml_path crab_args of None \<Rightarrow> []
                                                 | Some p \<Rightarrow> [YStr p])
                                                @ (if use_3FGL crab_args then [YStr ''3FGL'']
                                                   else [])))))))
                   # rest"
    by (elim exE conjE) (rule that)
  have top: "top = [''selection'' \<mapsto> YDict [''emin'' \<mapsto> YNum 1000, ''emax'' \<mapsto> YNum 500000,
                                        ''tmin'' \<mapsto> YNum 0, ''tmax'' \<mapsto> YNum 1,
                                        ''target'' \<mapsto> YStr ''mkn421'', ''zmax'' \<mapsto> YNum 90],
            ''data'' \<mapsto> YDict [''evfile'' \<mapsto> YStr ''/old/run/events.txt'',
                                   ''scfile'' \<mapsto> YStr ''/old/run/spacecraft.fits'',
                                   ''ltcube'' \<mapsto> YNull],
            ''model'' \<mapsto> YDict [''catalogs'' \<mapsto> YList [YStr ''2FGL''],
                                    ''galdiff'' \<mapsto> YStr ''gll_iem_v06.fits''],
            ''binning'' \<mapsto> YDict [''roiwidth'' \<mapsto> YNum 10]]"
    using t1 by (simp add: crab_env_def crab_template_def)
  have sel: "sel = [''emin'' \<mapsto> YNum 1000, ''emax'' \<mapsto> YNum 500000,
                                        ''tmin'' \<mapsto> YNum 0, ''tmax'' \<mapsto> YNum 1,
                                        ''target'' \<mapsto> YStr ''mkn421'', ''zmax'' \<mapsto> YNum 90]"
    using t2 by (simp add: top)
  have dat: "dat = [''evfile'' \<mapsto> YStr ''/old/run/events.txt'',
                                   ''scfile'' \<mapsto> YStr ''/old/run/spacecraft.fits'',
                                   ''ltcube'' \<mapsto> YNull]"
    using t3 by (simp add: top)
  have mdl: "mdl = [''catalogs'' \<mapsto> YList [YStr ''2FGL''],
                                    ''galdiff'' \<mapsto> YStr ''gll_iem_v06.fits'']"
    using t4 by (simp add: top)
  have ev: "split_last ev = ''events.txt''" using t5 by (auto simp: dat split_last_def)
  have sc: "split_last sc = ''spacecraft.fits''" using t6 by (auto simp: dat split_last_def)
  have bp: "basepath = ''/out/crab''" using ofo by (simp add: crab_args_def)
  have a: "emin crab_args = 100" "data_path crab_args = ''/data/crab''"
    "target_src crab_args = ''Crab_Nebula''" "xml_path crab_args = None"
    "use_3FGL crab_args = False" "trace crab_world = []"
    by (simp_all add: crab_args_def crab_world_def)
  have g: "\<exists>config rest.
         trace (snd (run_fit crab_env crab_args crab_world))
           = WriteYaml ''/out/crab/config.yaml'' config # rest
         \<and> getitem2 config ''selection'' ''emin'' = Inr (YNum 100)
         \<and> getitem2 config ''selection'' ''target'' = Inr (YStr ''Crab Nebula'')
         \<and> getitem2 config ''selection'' ''zmax'' = Inr (YNum 90)
         \<and> getitem2 config ''data'' ''evfile'' = Inr (YStr ''/data/crab/events.txt'')
         \<and> getitem2 config ''data'' ''scfile'' = Inr (YStr ''/data/crab/spacecraft.fits'')
         \<and> getitem2 config ''data'' ''ltcube'' = Inr YNull
         \<and> getitem2 config ''model'' ''catalogs'' = Inr (YList [])
         \<and> getitem2 config ''model'' ''galdiff'' = Inr (YStr ''gll_iem_v06.fits'')
         \<and> getitem2 config ''binning'' ''roiwidth'' = Inr (YNum 10)"
    unfolding tr
    by (simp add: a bp ev sc crab_src top sel dat mdl getitem2_def getitem_def bind_e_def
          os_path_join_def)
  from h g show ?thesis by (rule conjI)
qed

text \<open>
  C10, amended: the name under which the target reaches the engine is the target argument
  with every underscore replaced by a space: it is the \<open>target\<close> field of the written
  configuration and the source name of every \<open>set_parameter\<close>, \<open>bowtie\<close> and \<open>sed\<close>
  call and of the two \<open>free_source\<close> calls that un-free and re-free the target (the only
  ones with an explicit \<open>free\<close> flag). The other \<open>free_source\<close> calls name other
  sources: the entries of the explicit list, passed as given, and the two diffuse
  components. The run depends on the target argument only through the replaced name: the
  underscored form is used in the default directory name only.
\<close>

theorem target_name_passed:
  assumes "fst (run_fit env args w) = Inr ()"
  shows "\<exists>path config calls.
           trace (snd (run_fit env args w)) = trace w @ WriteYaml path config # calls
           \<and> getitem2 config ''selection'' ''target''
               = Inr (YStr (replace_underscore (target_src args)))
           \<and> (\<forall>a \<in> set calls.
                 (\<forall>n p v. a = SetParameter n p v \<longrightarrow> n = replace_underscore (target_src args))
                 \<and> (\<forall>n. a = Bowtie n \<longrightarrow> n = replace_underscore (target_src args))
                 \<and> (\<forall>n f b p r. a = Sed n f b p r \<longrightarrow> n = replace_underscore (target_src args))
                 \<and> (\<forall>n p f. a = FreeSource n p (Given f) \<longrightarrow>
                        n = replace_underscore (target_src args))
                 \<and> (\<forall>n p. a = FreeSource n p Omitted \<longrightarrow>
                        (p = Omitted \<and> free_radius args = None
                           \<and> (\<exists>keys. free_sources args = Some keys \<and> n \<in> set keys))
                        \<or> (p = Given (Some ''norm'') \<and> free_diff args
                           \<and> (n = ''galdiff'' \<or> n = ''isodiff''))))
           \<and> FreeSource (replace_underscore (target_src args)) (Given None) (Given False)
                \<in> set calls
           \<and> Bowtie (replace_underscore (target_src args)) \<in> set calls
           \<and> (\<forall>t. replace_underscore t = replace_underscore (target_src args) \<longrightarrow>
                 run_fit env (args\<lparr>target_src := t\<rparr>) w = run_fit env args w)"
proof -
  let ?src = "replace_underscore (target_src args)"
  from run_fit_success [OF assms] obtain basepath tmin tmax config where
    bc: "build_config (float_repr env) (default_yaml env) (emin args) (emax args)
           tmin tmax ?src (data_path args) (xml_path args) (use_3FGL args) = Inr config"
    and tr: "trace (snd (run_fit env args w)) = trace w @ engine_calls args basepath config"
    by auto
  define calls where "calls = tl (engine_calls args basepath config)"
  have ec: "engine_calls args basepath config
              = WriteYaml (os_path_join basepath ''config.yaml'') config # calls"
    by (simp add: calls_def engine_calls_def Let_def)
  have tr': "trace (snd (run_fit env args w))
               = trace w @ WriteYaml (os_path_join basepath ''config.yaml'') config # calls"
    unfolding tr ec ..
  from build_config_Inr [OF bc]
  have tg: "getitem2 config ''selection'' ''target'' = Inr (YStr ?src)"
    by (auto simp: getitem2_def getitem_def bind_e_def)
  have cs: "calls = [GTAnalysis (os_path_join basepath ''config.yaml'') 3, Setup]
         @ free_calls args
         @ fst (configure_target ?src args)
         @ [FreeSource ?src (Given None) (Given False),
            FreeSource ?src (Given (snd (configure_target ?src args))) (Given True)]
         @ diffuse_calls args
         @ [Fit (retries args),
            WriteRoi (''llh_emin_'' @ str_int (py_int (emin args)) @ ''_emax_''
                        @ str_int (py_int (emax args)) @ ''.npy''),
            Bowtie ?src,
            NpSave (os_path_join basepath (''bowtie_emin_'' @ str_int (py_int (emin args))
                        @ ''_emax_'' @ str_int (py_int (emax args)) @ ''.npy''))]
         @ (if no_sed args then []
            else [Sed ?src (''sed_emin_'' @ str_int (py_int (emin args)) @ ''_emax_''
                        @ str_int (py_int (emax args)) @ ''.fits'')
                    (loge_bins (emin args) (emax args))
                    (snd (configure_target ?src args)) (free_radius args)])"
    by (simp add: calls_def engine_calls_def Let_def)
  have all: "\<forall>a \<in> set calls.
                 (\<forall>n p v. a = SetParameter n p v \<longrightarrow> n = ?src)
                 \<and> (\<forall>n. a = Bowtie n \<longrightarrow> n = ?src)
                 \<and> (\<forall>n f b p r. a = Sed n f b p r \<longrightarrow> n = ?src)
                 \<and> (\<forall>n p f. a = FreeSource n p (Given f) \<longrightarrow> n = ?src)
                 \<and> (\<forall>n p. a = FreeSource n p Omitted \<longrightarrow>
                        (p = Omitted \<and> free_radius args = None
                           \<and> (\<exists>keys. free_sources args = Some keys \<and> n \<in> set keys))
                        \<or> (p = Given (Some ''norm'') \<and> free_diff args
                           \<and> (n = ''galdiff'' \<or> n = ''isodiff'')))"
    unfolding cs
    by (auto simp: free_calls_def configure_target_def diffuse_calls_def
          split: option.splits if_splits dest: sym)
  have m1: "FreeSource ?src (Given None) (Given False) \<in> set calls"
    unfolding cs by simp
  have m2: "Bowtie ?src \<in> set calls"
    unfolding cs by simp
  have ind: "\<forall>t. replace_underscore t = ?src \<longrightarrow>
                 run_fit env (args\<lparr>target_src := t\<rparr>) w = run_fit env args w"
    using target_src_irrelevant by blast
  show ?thesis
    apply (rule exI [of _ "os_path_join basepath ''config.yaml''"])
    apply (rule exI [of _ config], rule exI [of _ calls])
    apply (intro conjI)
         apply (rule tr')
        apply (rule tg)
       apply (rule all)
      apply (rule m1)
     apply (rule m2)
    apply (rule ind)
    done
qed

theorem target_name_passed_witness:
  "fst (run_fit crab_env crab_args crab_world) = Inr ()
   \<and> (\<exists>path config calls.
         trace (snd (run_fit crab_env crab_args crab_world)) = WriteYaml path config # calls
         \<and> getitem2 config ''selection'' ''target'' = Inr (YStr ''Crab Nebula'')
         \<and> FreeSource ''Crab Nebula'' (Given None) (Given False) \<in> set calls
         \<and> Bowtie ''Crab Nebula'' \<in> set calls)
   \<and> run_fit crab_env (crab_args\<lparr>target_src := ''Crab Nebula''\<rparr>) crab_world
       = run_fit crab_env crab_args crab_world"
proof -
  have h: "fst (run_fit crab_env crab_args crab_world) = Inr ()"
    by (rule crab_run_ok [where p = "''/out/crab''" and tr = "(55000, 55010)"])
      (simp_all add: crab_args_def)
  have a: "replace_underscore (target_src crab_args) = ''Crab Nebula''"
    "trace crab_world = []"
    by (simp_all add: crab_args_def crab_world_def crab_src)
  have b: "replace_underscore ''Crab Nebula'' = ''Crab Nebula''"
    by (simp add: replace_underscore_def)
  from target_name_passed [OF h]
  obtain path config calls where
    c1: "trace (snd (run_fit crab_env crab_args crab_world))
           = trace crab_world @ WriteYaml path config # calls"
    and c2: "getitem2 config ''selection'' ''target''
               = Inr (YStr (replace_underscore (target_src crab_args)))"
    and c3: "FreeSource (replace_underscore (target_src crab_args)) (Given None) (Given False)
                \<in> set calls"
    and c4: "Bowtie (replace_underscore (target_src crab_args)) \<in> set calls"
    and c5: "\<forall>t. replace_underscore t = replace_underscore (target_src crab_args) \<longrightarrow>
                 run_fit crab_env (crab_args\<lparr>target_src := t\<rparr>) crab_world
                   = run_fit crab_env crab_args crab_world"
    by (elim exE conjE) (rule that)
  have g1: "\<exists>path config calls.
         trace (snd (run_fit crab_env crab_args crab_world)) = WriteYaml path config # calls
         \<and> getitem2 config ''selection'' ''target'' = Inr (YStr ''Crab Nebula'')
         \<and> FreeSource ''Crab Nebula'' (Given None) (Given False) \<in> set calls
         \<and> Bowtie ''Crab Nebula'' \<in> set calls"
    using c1 c2 c3 c4 unfolding a by auto
  have g2: "run_fit crab_env (crab_args\<lparr>target_src := ''Crab Nebula''\<rparr>) crab_world
       = run_fit crab_env crab_args crab_world"
    using c5 a(1) b by simp
  from h g1 g2 show ?thesis by (intro conjI)
qed

text \<open>
  C10 as stated fails for \<open>free_source\<close>: without a free radius, each entry of the
  explicit source list is passed to \<open>free_source\<close> unchanged, here with its underscore,
  and it is not the target's name.
\<close>

theorem target_name_passed_counterexample:
  "fst (run_fit crab_env (crab_args\<lparr>free_radius := None\<rparr>) crab_world) = Inr ()
   \<and> free_sources (crab_args\<lparr>free_radius := None\<rparr>) = Some [''PKS_0528+134'']
   \<and> FreeSource ''PKS_0528+134'' Omitted Omitted
        \<in> set (trace (snd (run_fit crab_env (crab_args\<lparr>free_radius := None\<rparr>) crab_world)))
   \<and> ''PKS_0528+134'' \<noteq> replace_underscore (target_src (crab_args\<lparr>free_radius := None\<rparr>))"
proof -
  let ?a = "crab_args\<lparr>free_radius := None\<rparr>"
  have h: "fst (run_fit crab_env ?a crab_world) = Inr ()"
    by (rule crab_run_ok [where p = "''/out/crab''" and tr = "(55000, 55010)"])
      (simp_all add: crab_args_def)
  have fs: "free_sources ?a = Some [''PKS_0528+134'']" by (simp add: crab_args_def)
  from run_fit_success [OF h] obtain basepath config where
    tr: "trace (snd (run_fit crab_env ?a crab_world))
           = trace crab_world @ engine_calls ?a basepath config"
    by auto
  have m: "FreeSource ''PKS_0528+134'' Omitted Omitted
             \<in> set (trace (snd (run_fit crab_env ?a crab_world)))"
    unfolding tr by (simp add: engine_calls_def free_calls_def fs Let_def)
  have ne: "''PKS_0528+134'' \<noteq> replace_underscore (target_src ?a)"
    by (simp add: crab_args_def crab_src)
  from h fs m ne show ?thesis by (intro conjI)
qed

end
